theory Spec2Isabelle
  imports Complex_Main "HOL-Library.Word" "HOL-Library.AList"
begin

section \<open>JavaScript strings\<close>

text \<open>
  A JavaScript string is a finite sequence of 16-bit code units; \<open>length\<close>,
  \<open>substring\<close>, \<open>trim\<close>, \<open>split\<close> and \<open>includes\<close> all count code units.
  String literals of the source are written \<open>ustr ''...''\<close>.
\<close>

type_synonym jsstring = "16 word list"

definition ustr :: "string \<Rightarrow> jsstring" where
  "ustr s = map of_char s"

text \<open>
  The code units removed by \<open>String.prototype.trim\<close>: WhiteSpace (TAB, VT, FF, ZWNBSP and
  the Unicode space separators) and LineTerminator (LF, CR, LS, PS). All of them lie in
  the basic plane, so trimming by code unit is exact.
\<close>

definition isWhiteSpace :: "16 word \<Rightarrow> bool" where
  "isWhiteSpace c =
     (c \<in> set [0x09, 0x0A, 0x0B, 0x0C, 0x0D, 0x20, 0xA0, 0x1680,
                0x2028, 0x2029, 0x202F, 0x205F, 0x3000, 0xFEFF]
      \<or> (0x2000 \<le> c \<and> c \<le> 0x200A))"

definition trim :: "jsstring \<Rightarrow> jsstring" where
  "trim s = rev (dropWhile isWhiteSpace (rev (dropWhile isWhiteSpace s)))"

text \<open>\<open>s.includes(c)\<close> and \<open>s.split(c)\<close> for a search string \<open>c\<close> of one code unit.\<close>

definition includes_js :: "jsstring \<Rightarrow> 16 word \<Rightarrow> bool" where
  "includes_js s c = (c \<in> set s)"

fun split_js :: "jsstring \<Rightarrow> 16 word \<Rightarrow> jsstring list" where
  "split_js [] sep = [[]]"
| "split_js (x # xs) sep =
     (if x = sep then [] # split_js xs sep
      else (case split_js xs sep of
              [] \<Rightarrow> [[x]]
            | p # ps \<Rightarrow> (x # p) # ps))"

definition comma :: "16 word" where
  "comma = 0x2C"

text \<open>
  \<open>s.substring(start, end)\<close>: both indices are clamped to \<open>[0, length]\<close> and swapped when
  \<open>start > end\<close>.
\<close>

definition substring :: "jsstring \<Rightarrow> int \<Rightarrow> int \<Rightarrow> jsstring" where
  "substring s start end' =
     (let len = int (length s);
          a = min (max start 0) len;
          b = min (max end' 0) len;
          from = min a b;
          to = max a b
      in take (nat (to - from)) (drop (nat from) s))"

text \<open>
  \<open>xs.slice(start, end)\<close> on an array: a negative index counts from the end, both are
  clamped to \<open>[0, length]\<close>, and the result is empty when the range is.
\<close>

definition slice :: "'a list \<Rightarrow> int \<Rightarrow> int \<Rightarrow> 'a list" where
  "slice xs start end' =
     (let len = int (length xs);
          k = (if start < 0 then max (len + start) 0 else min start len);
          final = (if end' < 0 then max (len + end') 0 else min end' len)
      in take (nat (final - k)) (drop (nat k) xs))"

text \<open>The decimal rendering of a non-negative integer, as a template literal produces it.\<close>

fun decimal :: "nat \<Rightarrow> jsstring" where
  "decimal n =
     (if n < 10 then [of_nat (48 + n)]
      else decimal (n div 10) @ [of_nat (48 + n mod 10)])"

declare decimal.simps [simp del]

section \<open>JavaScript values\<close>

text \<open>
  The values a parsed JSON body can hold, and \<open>undefined\<close>, which a missing property
  reads as. An object is the list of its own properties in order.
\<close>

datatype jsnumber = NaN | PosInfinity | NegInfinity | Finite rat

datatype jsval =
    JUndefined
  | JNull
  | JBool bool
  | JNum jsnumber
  | JStr jsstring
  | JArr "jsval list"
  | JObj "(jsstring \<times> jsval) list"

text \<open>\<open>ToBoolean\<close>: what \<open>||\<close>, \<open>&&\<close> and \<open>!\<close> test.\<close>

fun truthy :: "jsval \<Rightarrow> bool" where
  "truthy JUndefined = False"
| "truthy JNull = False"
| "truthy (JBool b) = b"
| "truthy (JNum NaN) = False"
| "truthy (JNum (Finite r)) = (r \<noteq> 0)"
| "truthy (JNum _) = True"
| "truthy (JStr s) = (s \<noteq> [])"
| "truthy (JArr _) = True"
| "truthy (JObj _) = True"

section \<open>Component state\<close>

text \<open>
  The \<open>useState\<close> cells of \<open>HomePage\<close> (lines 48-55); \<open>null\<close> is \<open>None\<close> for the error and
  \<open>JNull\<close> for the city. \<open>loadingCities\<close> belongs to the suggestions, whose fetch is not
  modelled: the handlers below only read the options it has left in \<open>cityOptions\<close>.
\<close>

record state =
  searchQuery :: jsstring
  cityOptions :: "jsstring list"
  news :: "jsval list"
  cityInfo :: jsval
  error :: "jsstring option"
  loading :: bool
  loadingCities :: bool
  currentPage :: int

definition initial :: state where
  "initial = \<lparr>searchQuery = [], cityOptions = [], news = [], cityInfo = JNull,
     error = None, loading = False, loadingCities = False, currentPage = 1\<rparr>"

section \<open>Pagination\<close>

text \<open>Lines 45 and 222-225.\<close>

definition ARTICLES_PER_PAGE :: nat where
  "ARTICLES_PER_PAGE = 10"

definition indexOfLastArticle :: "state \<Rightarrow> int" where
  "indexOfLastArticle s = currentPage s * int ARTICLES_PER_PAGE"

definition indexOfFirstArticle :: "state \<Rightarrow> int" where
  "indexOfFirstArticle s = indexOfLastArticle s - int ARTICLES_PER_PAGE"

definition currentArticles :: "state \<Rightarrow> jsval list" where
  "currentArticles s = slice (news s) (indexOfFirstArticle s) (indexOfLastArticle s)"

text \<open>
  \<open>Math.ceil(news.length / ARTICLES_PER_PAGE)\<close>. The quotient is taken exactly: an array
  length is below \<open>2^32\<close>, where the double nearest to \<open>n / 10\<close> is an integer only if
  \<open>n / 10\<close> is, so the ceiling of the double is the ceiling of the quotient.
\<close>

definition totalPages :: "state \<Rightarrow> nat" where
  "totalPages s = nat \<lceil>rat_of_nat (length (news s)) / rat_of_nat ARTICLES_PER_PAGE\<rceil>"

text \<open>
  The \<open>onChange\<close> handler of the paginator, lines 381-384 (scrolling apart, which is no
  state).
\<close>

definition onPageChange :: "state \<Rightarrow> int \<Rightarrow> state" where
  "onPageChange s page = s\<lparr>currentPage := page\<rparr>"

section \<open>Exceptions\<close>

text \<open>
  What a \<open>try\<close> block of the component can catch: a property read on \<open>null\<close> or a call of
  something that is no function (\<open>TypeError\<close>), \<open>encodeURIComponent\<close> on an unpaired
  surrogate (\<open>URIError\<close>), \<open>response.json()\<close> on a body that is not JSON (\<open>SyntaxError\<close>),
  and a \<open>fetch\<close> whose promise rejects (\<open>FetchFailed\<close>). An operation that can throw
  returns \<open>exn + 'a\<close>.
\<close>

datatype exn = TypeError | URIError | SyntaxError | FetchFailed

section \<open>encodeURIComponent\<close>

definition unreserved :: "16 word \<Rightarrow> bool" where
  "unreserved c =
     ((0x41 \<le> c \<and> c \<le> 0x5A) \<or> (0x61 \<le> c \<and> c \<le> 0x7A) \<or> (0x30 \<le> c \<and> c \<le> 0x39)
      \<or> c \<in> set [0x2D, 0x5F, 0x2E, 0x21, 0x7E, 0x2A, 0x27, 0x28, 0x29])"

definition hexDigit :: "nat \<Rightarrow> 16 word" where
  "hexDigit n = (if n < 10 then of_nat (48 + n) else of_nat (55 + n))"

definition percent :: "nat \<Rightarrow> jsstring" where
  "percent octet = [0x25, hexDigit (octet div 16), hexDigit (octet mod 16)]"

definition utf8 :: "nat \<Rightarrow> nat list" where
  "utf8 cp =
     (if cp < 0x80 then [cp]
      else if cp < 0x800 then [0xC0 + cp div 64, 0x80 + cp mod 64]
      else if cp < 0x10000 then
        [0xE0 + cp div 4096, 0x80 + (cp div 64) mod 64, 0x80 + cp mod 64]
      else
        [0xF0 + cp div 262144, 0x80 + (cp div 4096) mod 64,
         0x80 + (cp div 64) mod 64, 0x80 + cp mod 64])"

definition isLeadSurrogate :: "16 word \<Rightarrow> bool" where
  "isLeadSurrogate c = (0xD800 \<le> c \<and> c \<le> 0xDBFF)"

definition isTrailSurrogate :: "16 word \<Rightarrow> bool" where
  "isTrailSurrogate c = (0xDC00 \<le> c \<and> c \<le> 0xDFFF)"

definition escapeUnits :: "nat \<Rightarrow> jsstring" where
  "escapeUnits cp = concat (map percent (utf8 cp))"

fun encodeURIComponent :: "jsstring \<Rightarrow> exn + jsstring" where
  "encodeURIComponent [] = Inr []"
| "encodeURIComponent [c] =
     (if unreserved c then Inr [c]
      else if isLeadSurrogate c \<or> isTrailSurrogate c then Inl URIError
      else Inr (escapeUnits (unat c)))"
| "encodeURIComponent (c # d # ds) =
     (if unreserved c then
        (case encodeURIComponent (d # ds) of Inl e \<Rightarrow> Inl e | Inr r \<Rightarrow> Inr (c # r))
      else if isLeadSurrogate c then
        (if isTrailSurrogate d then
           (case encodeURIComponent ds of
              Inl e \<Rightarrow> Inl e
            | Inr r \<Rightarrow>
                Inr (escapeUnits (0x10000 + (unat c - 0xD800) * 0x400 + (unat d - 0xDC00)) @ r))
         else Inl URIError)
      else if isTrailSurrogate c then Inl URIError
      else
        (case encodeURIComponent (d # ds) of
           Inl e \<Rightarrow> Inl e
         | Inr r \<Rightarrow> Inr (escapeUnits (unat c) @ r)))"

section \<open>The network\<close>

text \<open>
  A response as the handlers read it: \<open>status\<close>, \<open>statusText\<close>, and what
  \<open>await response.json()\<close> gives (\<open>None\<close> when that promise rejects). Every request of the
  component is a GET with credentials, so the network is a function of the URL; a fetch
  either rejects or resolves with a response.
\<close>

record response =
  status :: nat
  statusText :: jsstring
  json :: "jsval option"

definition ok :: "response \<Rightarrow> bool" where
  "ok r = (200 \<le> status r \<and> status r \<le> 299)"

datatype fetch_outcome = Rejects | Resolves response

type_synonym network = "jsstring \<Rightarrow> fetch_outcome"

text \<open>
  A handler returns the state it leaves and the requests it issued, each with the state
  as the setters called before it had made it.
\<close>

type_synonym trace = "(jsstring \<times> state) list"

definition cityInfoUrl :: "jsstring \<Rightarrow> jsstring \<Rightarrow> exn + jsstring" where
  "cityInfoUrl city stateName =
     (case encodeURIComponent city of
        Inl e \<Rightarrow> Inl e
      | Inr c \<Rightarrow>
          (case encodeURIComponent stateName of
             Inl e \<Rightarrow> Inl e
           | Inr t \<Rightarrow> Inr (ustr ''http://51.21.218.3:8080/api/cities/'' @ c @ ustr ''/'' @ t)))"

definition cityNewsUrl :: "jsstring \<Rightarrow> jsstring \<Rightarrow> exn + jsstring" where
  "cityNewsUrl city stateName =
     (case encodeURIComponent city of
        Inl e \<Rightarrow> Inl e
      | Inr c \<Rightarrow>
          (case encodeURIComponent stateName of
             Inl e \<Rightarrow> Inl e
           | Inr t \<Rightarrow> Inr (ustr ''http://51.21.218.3:8080/api/news/'' @ c @ ustr ''/'' @ t)))"

definition globalNewsUrl :: jsstring where
  "globalNewsUrl = ustr ''http://51.21.218.3:8080/api/news/global''"

section \<open>Normalizing the articles of a response\<close>

text \<open>
  \<open>{...article}\<close> copies the own enumerable properties of \<open>article\<close>: none for \<open>null\<close>,
  \<open>undefined\<close>, a boolean or a number, the indexed code units of a string, the indexed
  elements of an array.
\<close>

fun spread :: "jsval \<Rightarrow> (jsstring \<times> jsval) list" where
  "spread (JObj props) = props"
| "spread (JArr xs) = map (\<lambda>i. (decimal i, xs ! i)) [0 ..< length xs]"
| "spread (JStr s) = map (\<lambda>i. (decimal i, JStr [s ! i])) [0 ..< length s]"
| "spread _ = []"

text \<open>
  \<open>value.name\<close> for a name that is no array index and that no built-in prototype
  defines (the names read are those of the fields of \<open>ArticleDto\<close> and \<open>CityDto\<close>, and
  \<open>publishedAtString\<close>): a \<open>TypeError\<close> on \<open>null\<close> and \<open>undefined\<close>, the own property of an
  object, \<open>undefined\<close> otherwise.
\<close>

definition ownProp :: "(jsstring \<times> jsval) list \<Rightarrow> jsstring \<Rightarrow> jsval" where
  "ownProp props name = (case map_of props name of None \<Rightarrow> JUndefined | Some v \<Rightarrow> v)"

fun getProp :: "jsval \<Rightarrow> jsstring \<Rightarrow> exn + jsval" where
  "getProp JUndefined name = Inl TypeError"
| "getProp JNull name = Inl TypeError"
| "getProp (JObj props) name = Inr (ownProp props name)"
| "getProp _ name = Inr JUndefined"

text \<open>
  Lines 152-155 and 186-189,
  \<open>({...article, publishedAt: article.publishedAtString || article.publishedAt})\<close>: the
  right operand of \<open>||\<close> is read only when the left one is falsy, and \<open>publishedAt\<close> keeps
  its place among the properties when the article has one, and comes last otherwise.
\<close>

definition normalizeArticle :: "jsval \<Rightarrow> exn + jsval" where
  "normalizeArticle article =
     (case getProp article (ustr ''publishedAtString'') of
        Inl e \<Rightarrow> Inl e
      | Inr a \<Rightarrow>
          (case (if truthy a then Inr a else getProp article (ustr ''publishedAt'')) of
             Inl e \<Rightarrow> Inl e
           | Inr v \<Rightarrow> Inr (JObj (AList.update (ustr ''publishedAt'') v (spread article)))))"

fun mapE :: "('a \<Rightarrow> exn + 'b) \<Rightarrow> 'a list \<Rightarrow> exn + 'b list" where
  "mapE f [] = Inr []"
| "mapE f (x # xs) =
     (case f x of
        Inl e \<Rightarrow> Inl e
      | Inr y \<Rightarrow> (case mapE f xs of Inl e \<Rightarrow> Inl e | Inr ys \<Rightarrow> Inr (y # ys)))"

text \<open>\<open>data.map(...)\<close>: only an array has a \<open>map\<close> to call.\<close>

fun mapArticles :: "jsval \<Rightarrow> exn + jsval list" where
  "mapArticles (JArr articles) = mapE normalizeArticle articles"
| "mapArticles _ = Inl TypeError"

section \<open>The city search\<close>

text \<open>
  Lines 100-103, \<open>matchedOption || searchQuery\<close>, with \<open>toLowerCase\<close> a parameter (the Unicode case
  mapping is not modelled; nothing below depends on which function it is).
\<close>

definition matchedOption :: "(jsstring \<Rightarrow> jsstring) \<Rightarrow> state \<Rightarrow> jsstring option" where
  "matchedOption toLowerCase s =
     find (\<lambda>option. toLowerCase option = toLowerCase (searchQuery s)) (cityOptions s)"

definition cityState :: "(jsstring \<Rightarrow> jsstring) \<Rightarrow> state \<Rightarrow> jsstring" where
  "cityState toLowerCase s =
     (case matchedOption toLowerCase s of
        None \<Rightarrow> searchQuery s
      | Some m \<Rightarrow> if m \<noteq> [] then m else searchQuery s)"

definition enterCityAndState :: jsstring where
  "enterCityAndState = ustr ''Please enter a city and state.''"

definition commaFormat :: jsstring where
  "commaFormat =
     ustr ''Please enter city and state separated by a comma (e.g., Miami, Florida).''"

definition invalidName :: jsstring where
  "invalidName = ustr ''Invalid city or state name. Please check your input.''"

definition unauthorized :: jsstring where
  "unauthorized = ustr ''Unauthorized: please enter your login and password.''"

definition tryAgain :: jsstring where
  "tryAgain = ustr ''Error getting news. Please try again.''"

definition networkError :: jsstring where
  "networkError = ustr ''Network error''"

text \<open>
  The checks that open \<open>fetchCityNews\<close> (lines 95-117), each early \<open>return\<close> as \<open>Inl\<close> of the message it
  sets. \<open>[city, stateName]\<close> takes the first two pieces of the split, and a missing piece
  is \<open>undefined\<close>, which \<open>!\<close> rejects as it does the empty string.
\<close>

definition validateQuery :: "(jsstring \<Rightarrow> jsstring) \<Rightarrow> state \<Rightarrow> jsstring + jsstring \<times> jsstring" where
  "validateQuery toLowerCase s =
     (if trim (searchQuery s) = [] then Inl enterCityAndState
      else if \<not> includes_js (cityState toLowerCase s) comma then Inl commaFormat
      else
        (case map trim (split_js (cityState toLowerCase s) comma) of
           city # stateName # _ \<Rightarrow>
             if city = [] \<or> stateName = [] then Inl invalidName else Inr (city, stateName)
         | _ \<Rightarrow> Inl invalidName))"

text \<open>
  The \<open>try\<close> block of \<open>fetchCityNews\<close> (lines 125-163): the exception that left it, if one did, the state
  the setters called so far have made, and the requests issued.
\<close>

definition cityNewsTry :: "network \<Rightarrow> jsstring \<Rightarrow> jsstring \<Rightarrow> state \<Rightarrow> exn option \<times> state \<times> trace" where
  "cityNewsTry net city stateName s =
     (case cityInfoUrl city stateName of
        Inl e \<Rightarrow> (Some e, s, [])
      | Inr u1 \<Rightarrow>
          (case net u1 of
             Rejects \<Rightarrow> (Some FetchFailed, s, [(u1, s)])
           | Resolves cityInfoResponse \<Rightarrow>
               (case (if ok cityInfoResponse then
                        (case json cityInfoResponse of
                           None \<Rightarrow> Inl SyntaxError
                         | Some cityData \<Rightarrow> Inr (s\<lparr>cityInfo := cityData\<rparr>))
                      else Inr s) of
                  Inl e \<Rightarrow> (Some e, s, [(u1, s)])
                | Inr s' \<Rightarrow>
                    (case cityNewsUrl city stateName of
                       Inl e \<Rightarrow> (Some e, s', [(u1, s)])
                     | Inr u2 \<Rightarrow>
                         (case net u2 of
                            Rejects \<Rightarrow> (Some FetchFailed, s', [(u1, s), (u2, s')])
                          | Resolves response \<Rightarrow>
                              (if ok response then
                                 (case json response of
                                    None \<Rightarrow> (Some SyntaxError, s', [(u1, s), (u2, s')])
                                  | Some data \<Rightarrow>
                                      (case mapArticles data of
                                         Inl e \<Rightarrow> (Some e, s', [(u1, s), (u2, s')])
                                       | Inr articles \<Rightarrow>
                                           (None, s'\<lparr>news := articles\<rparr>, [(u1, s), (u2, s')])))
                               else if status response = 401 then
                                 (None, s'\<lparr>error := Some unauthorized\<rparr>, [(u1, s), (u2, s')])
                               else
                                 (None,
                                  s'\<lparr>error := Some (ustr ''Error getting news: ''
                                     @ decimal (status response) @ ustr '' ''
                                     @ statusText response)\<rparr>,
                                  [(u1, s), (u2, s')])))))))"

text \<open>
  \<open>fetchCityNews\<close> (lines 94-169): the checks, the resets of lines 119-123, the \<open>try\<close>
  block, then \<open>catch\<close> and \<open>finally\<close>.
\<close>

definition fetchCityNews :: "(jsstring \<Rightarrow> jsstring) \<Rightarrow> network \<Rightarrow> state \<Rightarrow> state \<times> trace" where
  "fetchCityNews toLowerCase net s =
     (case validateQuery toLowerCase s of
        Inl message \<Rightarrow> (s\<lparr>error := Some message\<rparr>, [])
      | Inr (city, stateName) \<Rightarrow>
          (case cityNewsTry net city stateName
                  (s\<lparr>error := None, loading := True, news := [], cityInfo := JNull,
                     currentPage := 1\<rparr>) of
             (thrown, s', requests) \<Rightarrow>
               ((case thrown of
                   Some _ \<Rightarrow> s'\<lparr>error := Some tryAgain\<rparr>
                 | None \<Rightarrow> s')\<lparr>loading := False\<rparr>,
                requests)))"

section \<open>The global news\<close>

text \<open>\<open>fetchGlobalNews\<close> (lines 171-201): its \<open>try\<close> block first, then the whole handler.\<close>

definition globalNewsTry :: "network \<Rightarrow> state \<Rightarrow> exn option \<times> state \<times> trace" where
  "globalNewsTry net s =
     (case net globalNewsUrl of
        Rejects \<Rightarrow> (Some FetchFailed, s, [(globalNewsUrl, s)])
      | Resolves response \<Rightarrow>
          (if ok response then
             (case json response of
                None \<Rightarrow> (Some SyntaxError, s, [(globalNewsUrl, s)])
              | Some data \<Rightarrow>
                  (case mapArticles data of
                     Inl e \<Rightarrow> (Some e, s, [(globalNewsUrl, s)])
                   | Inr articles \<Rightarrow> (None, s\<lparr>news := articles\<rparr>, [(globalNewsUrl, s)])))
           else if status response = 401 then
             (None, s\<lparr>error := Some unauthorized\<rparr>, [(globalNewsUrl, s)])
           else
             (None,
              s\<lparr>error := Some (ustr ''Error: '' @ decimal (status response) @ ustr '' ''
                 @ statusText response)\<rparr>,
              [(globalNewsUrl, s)])))"

definition fetchGlobalNews :: "network \<Rightarrow> state \<Rightarrow> state \<times> trace" where
  "fetchGlobalNews net s =
     (case globalNewsTry net
             (s\<lparr>loading := True, error := None, news := [], cityInfo := JNull,
                currentPage := 1\<rparr>) of
        (thrown, s', requests) \<Rightarrow>
          ((case thrown of
              Some _ \<Rightarrow> s'\<lparr>error := Some networkError\<rparr>
            | None \<Rightarrow> s')\<lparr>loading := False\<rparr>,
           requests))"

section \<open>Rendering an article\<close>

text \<open>
  \<open>formatDate\<close> (lines 208-220). \<open>new Date(dateString)\<close> never throws: a string that does not parse gives the time value
  \<open>NaN\<close> (\<open>None\<close>). \<open>toLocaleDateString\<close> with the fixed locale and options of the source
  does not throw either, and on the time value \<open>NaN\<close> it returns the string
  \<open>Invalid Date\<close>. The date parser and the locale's formatting of a valid time are
  parameters.
\<close>

definition newDate :: "(jsstring \<Rightarrow> int option) \<Rightarrow> jsstring \<Rightarrow> int option" where
  "newDate parse dateString = parse dateString"

definition toLocaleDateString :: "(int \<Rightarrow> jsstring) \<Rightarrow> int option \<Rightarrow> exn + jsstring" where
  "toLocaleDateString format timeValue =
     (case timeValue of
        None \<Rightarrow> Inr (ustr ''Invalid Date'')
      | Some t \<Rightarrow> Inr (format t))"

definition formatDate :: "(jsstring \<Rightarrow> int option) \<Rightarrow> (int \<Rightarrow> jsstring) \<Rightarrow> jsstring \<Rightarrow> jsstring" where
  "formatDate parse format dateString =
     (case toLocaleDateString format (newDate parse dateString) of
        Inl _ \<Rightarrow> []
      | Inr text \<Rightarrow> text)"

text \<open>
  The description line (lines 354-357): \<open>article.description?.substring(0, 120)\<close> followed by
  \<open>article.description?.length > 120 ? '...' : ''\<close>. Nothing is shown for \<open>null\<close> and
  \<open>undefined\<close>; a value that is no string has no \<open>substring\<close> to call.
\<close>

fun descriptionText :: "jsval \<Rightarrow> exn + jsstring" where
  "descriptionText (JStr description) =
     Inr (substring description 0 120
          @ (if 120 < length description then ustr ''...'' else []))"
| "descriptionText JUndefined = Inr []"
| "descriptionText JNull = Inr []"
| "descriptionText _ = Inl TypeError"

section \<open>Rendering the page\<close>

text \<open>
  What the function body of the component returns (lines 227-437), as far as it depends
  on the state. Evaluating it ends in one of three ways: it gives the view; it throws,
  which leaves the rendering tree crashed; or it meets a value that the declared types
  \<open>ArticleDto\<close> and \<open>CityDto\<close> exclude (a title that is an object, say), where the model
  stops and says nothing of what React does (\<open>IllTyped\<close>). The parts are evaluated in the
  order of the source, and the first that does not give a value decides.
\<close>

datatype 'a outcome = Done 'a | Throws exn | IllTyped

fun andThen :: "'a outcome \<Rightarrow> ('a \<Rightarrow> 'b outcome) \<Rightarrow> 'b outcome" where
  "andThen (Done x) f = f x"
| "andThen (Throws e) f = Throws e"
| "andThen IllTyped f = IllTyped"

fun liftE :: "exn + 'a \<Rightarrow> 'a outcome" where
  "liftE (Inl e) = Throws e"
| "liftE (Inr x) = Done x"

fun mapO :: "('a \<Rightarrow> 'b outcome) \<Rightarrow> 'a list \<Rightarrow> 'b list outcome" where
  "mapO f [] = Done []"
| "mapO f (x # xs) = andThen (f x) (\<lambda>y. andThen (mapO f xs) (\<lambda>ys. Done (y # ys)))"

text \<open>
  \<open>{value}\<close> as a child or an attribute, for a field declared a string: the text, or
  nothing for \<open>null\<close> and \<open>undefined\<close>.
\<close>

type_synonym child = "jsstring option"

fun asChild :: "jsval \<Rightarrow> child outcome" where
  "asChild (JStr s) = Done (Some s)"
| "asChild JNull = Done None"
| "asChild JUndefined = Done None"
| "asChild _ = IllTyped"

text \<open>
  \<open>{value && f(value)}\<close> for a field declared a string: nothing is shown for \<open>null\<close>,
  \<open>undefined\<close> and the empty string.
\<close>

fun whenTruthy :: "jsval \<Rightarrow> (jsstring \<Rightarrow> 'a outcome) \<Rightarrow> 'a option outcome" where
  "whenTruthy (JStr s) f = (if s = [] then Done None else andThen (f s) (\<lambda>x. Done (Some x)))"
| "whenTruthy JNull f = Done None"
| "whenTruthy JUndefined f = Done None"
| "whenTruthy _ f = IllTyped"

record imageView =
  picture :: jsstring
  pictureAlt :: child
  original :: child
  originalLabel :: jsstring

record articleView =
  imageBox :: "imageView option"
  headline :: child
  byline :: "jsstring option"
  published :: "jsstring option"
  descriptionLine :: jsstring
  fullArticle :: child

record cityView =
  cityName :: child
  stateTitle :: child
  countyLine :: "jsstring option"
  populationText :: jsstring
  latitude :: child
  longitude :: child
  zone :: child

record view =
  inputValue :: jsstring
  suggestions :: "jsstring list"
  suggestionsLoading :: bool
  noOptionsText :: jsstring
  buttonsDisabled :: bool
  alert :: "jsstring option"
  cards :: "articleView list"
  paginator :: "(nat \<times> int) option"
  cityCard :: "cityView option"

text \<open>\<open>article.source?.name || 'source'\<close> (line 337).\<close>

definition sourceName :: "jsval \<Rightarrow> jsstring outcome" where
  "sourceName article =
     andThen (liftE (getProp article (ustr ''source''))) (\<lambda>source.
     andThen (case source of
                JNull \<Rightarrow> Done JUndefined
              | JUndefined \<Rightarrow> Done JUndefined
              | _ \<Rightarrow> liftE (getProp source (ustr ''name''))) (\<lambda>name.
       if truthy name then (case name of JStr n \<Rightarrow> Done n | _ \<Rightarrow> IllTyped)
       else Done (ustr ''source'')))"

text \<open>The image block of an article (lines 307-340), entered when \<open>urlToImage\<close> is truthy.\<close>

definition imageBlock :: "jsval \<Rightarrow> jsstring \<Rightarrow> imageView outcome" where
  "imageBlock article urlToImage =
     andThen (liftE (getProp article (ustr ''title''))) (\<lambda>title.
     andThen (asChild title) (\<lambda>alt.
     andThen (liftE (getProp article (ustr ''url''))) (\<lambda>url.
     andThen (asChild url) (\<lambda>href.
     andThen (sourceName article) (\<lambda>name.
       Done \<lparr>picture = urlToImage, pictureAlt = alt, original = href,
             originalLabel = ustr ''View original on '' @ name\<rparr>)))))"

text \<open>
  One article of the list (lines 300-372). The byline is the template literal of line 350
  with the three code units that the source file has between the spaces.
\<close>

definition renderArticle ::
  "(jsstring \<Rightarrow> int option) \<Rightarrow> (int \<Rightarrow> jsstring) \<Rightarrow> jsval \<Rightarrow> articleView outcome" where
  "renderArticle parse format article =
     andThen (liftE (getProp article (ustr ''urlToImage''))) (\<lambda>urlToImage.
     andThen (whenTruthy urlToImage (imageBlock article)) (\<lambda>box.
     andThen (liftE (getProp article (ustr ''title''))) (\<lambda>title.
     andThen (asChild title) (\<lambda>shownTitle.
     andThen (liftE (getProp article (ustr ''author''))) (\<lambda>author.
     andThen (whenTruthy author
                (\<lambda>a. Done (ustr ''By '' @ a @ [0x20, 0xE2, 0x20AC, 0xA2, 0x20]))) (\<lambda>by.
     andThen (liftE (getProp article (ustr ''publishedAt''))) (\<lambda>publishedAt.
     andThen (whenTruthy publishedAt (\<lambda>d. Done (formatDate parse format d))) (\<lambda>date.
     andThen (liftE (getProp article (ustr ''description''))) (\<lambda>description.
     andThen (liftE (descriptionText description)) (\<lambda>line.
     andThen (liftE (getProp article (ustr ''url''))) (\<lambda>url.
     andThen (asChild url) (\<lambda>href.
       Done \<lparr>imageBox = box, headline = shownTitle, byline = by, published = date,
             descriptionLine = line, fullArticle = href\<rparr>))))))))))))"

text \<open>
  The block shown when \<open>news.length > 0\<close> (lines 296-390): the articles of the current
  page, and the paginator when there is more than one page.
\<close>

definition renderNews ::
  "(jsstring \<Rightarrow> int option) \<Rightarrow> (int \<Rightarrow> jsstring) \<Rightarrow> state
     \<Rightarrow> (articleView list \<times> (nat \<times> int) option) outcome" where
  "renderNews parse format s =
     (if news s = [] then Done ([], None)
      else andThen (mapO (renderArticle parse format) (currentArticles s)) (\<lambda>shown.
             Done (shown,
                   if 1 < totalPages s then Some (totalPages s, currentPage s) else None)))"

text \<open>
  \<open>formatPopulation\<close> (lines 203-206), with the locale's rendering of a number a parameter.
  \<open>undefined\<close> is not \<open>null\<close>, and has no \<open>toLocaleString\<close> to call.
\<close>

fun formatPopulation :: "(jsnumber \<Rightarrow> jsstring) \<Rightarrow> jsval \<Rightarrow> jsstring outcome" where
  "formatPopulation toLocaleString JNull = Done (ustr ''Data not available'')"
| "formatPopulation toLocaleString (JNum population) = Done (toLocaleString population)"
| "formatPopulation toLocaleString JUndefined = Throws TypeError"
| "formatPopulation toLocaleString _ = IllTyped"

text \<open>
  The block shown when \<open>news.length === 0 && cityInfo\<close> (lines 392-426): the notice and
  the card of the city.
\<close>

definition renderCity :: "(jsnumber \<Rightarrow> jsstring) \<Rightarrow> state \<Rightarrow> cityView option outcome" where
  "renderCity toLocaleString s =
     (if news s \<noteq> [] then Done None
      else if cityInfo s = JNull then Done None
      else if \<not> truthy (cityInfo s) then IllTyped
      else
        andThen (liftE (getProp (cityInfo s) (ustr ''city''))) (\<lambda>city.
        andThen (asChild city) (\<lambda>shownCity.
        andThen (liftE (getProp (cityInfo s) (ustr ''stateName''))) (\<lambda>stateName.
        andThen (asChild stateName) (\<lambda>shownState.
        andThen (liftE (getProp (cityInfo s) (ustr ''countyName''))) (\<lambda>countyName.
        andThen (whenTruthy countyName (\<lambda>c. Done (ustr ''County: '' @ c))) (\<lambda>county.
        andThen (liftE (getProp (cityInfo s) (ustr ''population''))) (\<lambda>population.
        andThen (formatPopulation toLocaleString population) (\<lambda>people.
        andThen (liftE (getProp (cityInfo s) (ustr ''lat''))) (\<lambda>lat.
        andThen (asChild lat) (\<lambda>shownLat.
        andThen (liftE (getProp (cityInfo s) (ustr ''lng''))) (\<lambda>lng.
        andThen (asChild lng) (\<lambda>shownLng.
        andThen (liftE (getProp (cityInfo s) (ustr ''timezone''))) (\<lambda>timezone.
        andThen (asChild timezone) (\<lambda>shownZone.
          Done (Some \<lparr>cityName = shownCity, stateTitle = shownState, countyLine = county,
                       populationText = people, latitude = shownLat, longitude = shownLng,
                       zone = shownZone\<rparr>))))))))))))))))"

text \<open>
  The page: the search box and the buttons, the alert of line 290 (shown for a non-empty
  error), the news block and the city block.
\<close>

definition render ::
  "(jsstring \<Rightarrow> int option) \<Rightarrow> (int \<Rightarrow> jsstring) \<Rightarrow> (jsnumber \<Rightarrow> jsstring) \<Rightarrow> state
     \<Rightarrow> view outcome" where
  "render parse format toLocaleString s =
     andThen (renderNews parse format s) (\<lambda>shown.
     andThen (renderCity toLocaleString s) (\<lambda>city.
       Done \<lparr>inputValue = searchQuery s,
             suggestions = cityOptions s,
             suggestionsLoading = loadingCities s,
             noOptionsText =
               (if trim (searchQuery s) \<noteq> [] then ustr ''No matching cities found''
                else ustr ''Type to search for cities''),
             buttonsDisabled = loading s,
             alert = (case error s of None \<Rightarrow> None
                      | Some message \<Rightarrow> if message = [] then None else Some message),
             cards = fst shown,
             paginator = snd shown,
             cityCard = city\<rparr>))"

text \<open>
  The shape that \<open>CityDto\<close> declares (lines 34-43), with \<open>null\<close> or a missing property
  allowed where a string is declared: an object whose \<open>population\<close> is a number or \<open>null\<close>.
\<close>

definition stringOrAbsent :: "jsval \<Rightarrow> bool" where
  "stringOrAbsent v = (case v of JStr _ \<Rightarrow> True | JNull \<Rightarrow> True | JUndefined \<Rightarrow> True | _ \<Rightarrow> False)"

definition numberOrNull :: "jsval \<Rightarrow> bool" where
  "numberOrNull v = (case v of JNum _ \<Rightarrow> True | JNull \<Rightarrow> True | _ \<Rightarrow> False)"

definition cityDtoShaped :: "jsval \<Rightarrow> bool" where
  "cityDtoShaped info =
     (case info of
        JObj props \<Rightarrow>
          stringOrAbsent (ownProp props (ustr ''city''))
          \<and> stringOrAbsent (ownProp props (ustr ''stateName''))
          \<and> stringOrAbsent (ownProp props (ustr ''countyName''))
          \<and> numberOrNull (ownProp props (ustr ''population''))
          \<and> stringOrAbsent (ownProp props (ustr ''lat''))
          \<and> stringOrAbsent (ownProp props (ustr ''lng''))
          \<and> stringOrAbsent (ownProp props (ustr ''timezone''))
      | _ \<Rightarrow> False)"

section \<open>Example inputs\<close>

text \<open>\<open>toLowerCase\<close> on strings of ASCII code units.\<close>

definition asciiLower :: "jsstring \<Rightarrow> jsstring" where
  "asciiLower s = map (\<lambda>c. if 0x41 \<le> c \<and> c \<le> 0x5A then c + 0x20 else c) s"

definition anArticle :: "(jsstring \<times> jsval) list" where
  "anArticle =
     [(ustr ''title'', JStr (ustr ''Storm nears the coast'')),
      (ustr ''publishedAt'', JStr (ustr ''2024-05-01T10:00:00Z'')),
      (ustr ''publishedAtString'', JStr []),
      (ustr ''url'', JStr (ustr ''http://example.org/storm''))]"

definition datedArticle :: "(jsstring \<times> jsval) list" where
  "datedArticle =
     [(ustr ''title'', JStr (ustr ''Harbour reopens'')),
      (ustr ''publishedAtString'', JStr (ustr ''May 2, 2024'')),
      (ustr ''url'', JStr (ustr ''http://example.org/harbour''))]"

text \<open>Networks: one that is down, one that answers every request with an empty list.\<close>

definition offline :: network where
  "offline url = Rejects"

definition okResponse :: "jsval \<Rightarrow> response" where
  "okResponse body = \<lparr>status = 200, statusText = ustr ''OK'', json = Some body\<rparr>"

definition failure :: "nat \<Rightarrow> jsstring \<Rightarrow> response" where
  "failure code text = \<lparr>status = code, statusText = text, json = None\<rparr>"

text \<open>A response with status 200 whose body is no JSON (an HTML page, say).\<close>

definition htmlPage :: response where
  "htmlPage = \<lparr>status = 200, statusText = ustr ''OK'', json = None\<rparr>"

definition alwaysEmpty :: network where
  "alwaysEmpty url = Resolves (okResponse (JArr []))"

text \<open>
  A network that gives one outcome to the city-info request for Miami, Florida and
  another to every other request.
\<close>

definition miamiCityUrl :: jsstring where
  "miamiCityUrl = ustr ''http://51.21.218.3:8080/api/cities/Miami/Florida''"

definition miamiNewsUrl :: jsstring where
  "miamiNewsUrl = ustr ''http://51.21.218.3:8080/api/news/Miami/Florida''"

definition miamiServer :: "fetch_outcome \<Rightarrow> fetch_outcome \<Rightarrow> network" where
  "miamiServer cityOutcome newsOutcome url =
     (if url = miamiCityUrl then cityOutcome else newsOutcome)"

definition miamiCity :: jsval where
  "miamiCity = JObj [(ustr ''city'', JStr (ustr ''Miami'')),
     (ustr ''stateName'', JStr (ustr ''Florida'')),
     (ustr ''population'', JNum (Finite 442241))]"

definition cityThen :: "fetch_outcome \<Rightarrow> network" where
  "cityThen newsOutcome = miamiServer (Resolves (okResponse miamiCity)) newsOutcome"

text \<open>States: the queries typed, over the results of an earlier search where it matters.\<close>

definition blankQuery :: state where
  "blankQuery = initial\<lparr>searchQuery := ustr ''  ''\<rparr>"

definition miamiOnly :: state where
  "miamiOnly = initial\<lparr>searchQuery := ustr ''Miami'', news := [JObj anArticle],
     cityInfo := miamiCity, currentPage := 2\<rparr>"

definition miamiUSA :: state where
  "miamiUSA = initial\<lparr>searchQuery := ustr ''Miami, Florida, USA''\<rparr>"

definition noCity :: state where
  "noCity = initial\<lparr>searchQuery := ustr '', Florida''\<rparr>"

text \<open>A query whose state has a lead surrogate with no trail surrogate after it.\<close>

definition loneSurrogate :: state where
  "loneSurrogate = initial\<lparr>searchQuery := ustr ''Miami, Flo'' @ [0xD800] @ ustr ''rida''\<rparr>"

definition miamiFlorida :: state where
  "miamiFlorida = initial\<lparr>searchQuery := ustr ''miami, florida'',
     cityOptions := [ustr ''Miami, Florida''], news := [JObj anArticle],
     error := Some (ustr ''Network error''), currentPage := 2\<rparr>"

text \<open>
  A date parser that knows one date, the formatting of it, and the locale's rendering of
  one number; and a state that shows one article.
\<close>

definition atTen :: "jsstring \<Rightarrow> int option" where
  "atTen dateString =
     (if dateString = ustr ''2024-05-01T10:00:00Z'' then Some 1714557600000 else None)"

definition longDate :: "int \<Rightarrow> jsstring" where
  "longDate t = ustr ''May 1, 2024 at 10:00 AM''"

definition grouped :: "jsnumber \<Rightarrow> jsstring" where
  "grouped n = ustr ''442,241''"

definition stormShown :: state where
  "stormShown = initial\<lparr>searchQuery := ustr ''Miami'', news := [JObj anArticle]\<rparr>"

definition twentyFive :: state where
  "twentyFive = initial\<lparr>news := map (\<lambda>i. JNum (Finite (of_nat i))) [1 ..< 26], currentPage := 3\<rparr>"

section \<open>The example inputs, evaluated\<close>

lemma miamiFlorida_valid:
  "validateQuery asciiLower miamiFlorida = Inr (ustr ''Miami'', ustr ''Florida'')"
  by code_simp

lemma miami_cityInfoUrl: "cityInfoUrl (ustr ''Miami'') (ustr ''Florida'') = Inr miamiCityUrl"
  by code_simp

lemma miami_cityNewsUrl: "cityNewsUrl (ustr ''Miami'') (ustr ''Florida'') = Inr miamiNewsUrl"
  by code_simp

lemma miamiServer_city: "miamiServer c n miamiCityUrl = c"
  by (simp add: miamiServer_def)

lemma miamiServer_news: "miamiServer c n miamiNewsUrl = n"
  by (simp add: miamiServer_def miamiNewsUrl_def miamiCityUrl_def ustr_def)

lemma miamiServer_global: "miamiServer c n globalNewsUrl = n"
  by (simp add: miamiServer_def globalNewsUrl_def miamiCityUrl_def ustr_def)

lemma ok_okResponse: "ok (okResponse body)" "json (okResponse body) = Some body"
  by (simp_all add: ok_def okResponse_def)

lemma failure_simps: "status (failure code text) = code" "statusText (failure code text) = text"
  "ok (failure code text) = (200 \<le> code \<and> code \<le> 299)"
  by (simp_all add: ok_def failure_def)

lemma anArticle_normal:
  "AList.update (ustr ''publishedAt'')
     (if truthy (ownProp anArticle (ustr ''publishedAtString''))
      then ownProp anArticle (ustr ''publishedAtString'')
      else ownProp anArticle (ustr ''publishedAt'')) anArticle = anArticle"
  by code_simp

section \<open>Properties of pagination\<close>

lemma totalPages_div: "totalPages s = (length (news s) + 9) div 10"
  unfolding totalPages_def ARTICLES_PER_PAGE_def by linarith

lemma totalPages_ceiling: "int (totalPages s) = \<lceil>real (length (news s)) / 10\<rceil>"
  unfolding totalPages_div by linarith

lemma slice_nat:
  "slice xs (int a) (int b)
   = take (min b (length xs) - min a (length xs)) (drop (min a (length xs)) xs)"
proof -
  have a: "min (int a) (int (length xs)) = int (min a (length xs))" by simp
  have b: "min (int b) (int (length xs)) = int (min b (length xs))" by simp
  show ?thesis
    unfolding slice_def Let_def a b
    by (simp add: nat_diff_distrib' del: of_nat_min)
qed

lemma slice_page: "slice xs (int (10 * p)) (int (10 * p + 10)) = take 10 (drop (10 * p) xs)"
proof -
  have "slice xs (int (10 * p)) (int (10 * p + 10))
      = take (min (10 * p + 10) (length xs) - min (10 * p) (length xs))
          (drop (min (10 * p) (length xs)) xs)"
    by (rule slice_nat)
  also have "\<dots> = take 10 (drop (10 * p) xs)"
  proof (cases "10 * p \<le> length xs")
    case True
    then show ?thesis
      by (cases "10 * p + 10 \<le> length xs") (simp_all add: min_def)
  next
    case False
    then show ?thesis by (simp add: min_def)
  qed
  finally show ?thesis .
qed

lemma currentArticles_take_drop:
  assumes "1 \<le> currentPage s"
  shows "currentArticles s = take 10 (drop (10 * nat (currentPage s - 1)) (news s))"
proof -
  define p where "p = nat (currentPage s - 1)"
  have cp: "currentPage s = int p + 1"
    using assms by (simp add: p_def)
  have first: "indexOfFirstArticle s = int (10 * p)"
    by (simp add: indexOfFirstArticle_def indexOfLastArticle_def ARTICLES_PER_PAGE_def cp)
  have last: "indexOfLastArticle s = int (10 * p + 10)"
    by (simp add: indexOfLastArticle_def ARTICLES_PER_PAGE_def cp)
  show ?thesis
    unfolding currentArticles_def first last slice_page p_def ..
qed

lemma ceil_tenth: "(n::nat) \<le> 10 * ((n + 9) div 10) \<and> 10 * ((n + 9) div 10) < n + 10"
  by presburger

text \<open>
  C1. With \<open>N\<close> articles and a page \<open>p\<close> between 1 and \<open>totalPages\<close>: \<open>totalPages\<close> is the
  ceiling of \<open>N / 10\<close> (the least \<open>k\<close> with \<open>N \<le> 10 k\<close>); the visible slice is the articles
  at the indices from \<open>(p - 1) * 10\<close> up to \<open>p * 10\<close>, of which there are
  \<open>min 10 (N - 10 (p - 1))\<close>; and changing the page leaves the article list as it is.
\<close>

theorem pagination_slice:
  assumes "1 \<le> currentPage s" and "currentPage s \<le> int (totalPages s)"
  shows "int (totalPages s) = \<lceil>real (length (news s)) / 10\<rceil>
       \<and> totalPages s = (length (news s) + 9) div 10
       \<and> length (news s) \<le> 10 * totalPages s
       \<and> 10 * totalPages s < length (news s) + 10
       \<and> currentArticles s = take 10 (drop (10 * nat (currentPage s - 1)) (news s))
       \<and> length (currentArticles s) = min 10 (length (news s) - 10 * nat (currentPage s - 1))
       \<and> 0 < length (currentArticles s)
       \<and> (\<forall>i < length (currentArticles s).
            currentArticles s ! i = news s ! (10 * nat (currentPage s - 1) + i))
       \<and> news (onPageChange s page) = news s
       \<and> totalPages (onPageChange s page) = totalPages s"
proof -
  have tp: "totalPages s = (length (news s) + 9) div 10"
    by (rule totalPages_div)
  have ca: "currentArticles s = take 10 (drop (10 * nat (currentPage s - 1)) (news s))"
    using assms(1) by (rule currentArticles_take_drop)
  have pos: "10 * nat (currentPage s - 1) < length (news s)"
    using assms tp by linarith
  have len: "length (currentArticles s) = min 10 (length (news s) - 10 * nat (currentPage s - 1))"
    by (simp add: ca min.commute)
  have nth: "\<forall>i < length (currentArticles s).
      currentArticles s ! i = news s ! (10 * nat (currentPage s - 1) + i)"
    using pos by (simp add: ca)
  have same: "totalPages (onPageChange s page) = totalPages s"
    by (simp add: onPageChange_def totalPages_def)
  show ?thesis
    using tp ca len nth pos same ceil_tenth [of "length (news s)"] totalPages_ceiling [of s]
    by (simp add: onPageChange_def)
qed

theorem pagination_slice_witness:
  "1 \<le> currentPage twentyFive \<and> currentPage twentyFive \<le> int (totalPages twentyFive)
   \<and> totalPages twentyFive = 3
   \<and> currentArticles twentyFive = map (\<lambda>i. JNum (Finite (of_nat i))) [21 ..< 26]"
proof -
  have news: "length (news twentyFive) = 25"
    by (simp add: twentyFive_def)
  have h1: "1 \<le> currentPage twentyFive"
    by (simp add: twentyFive_def)
  have h2: "currentPage twentyFive \<le> int (totalPages twentyFive)"
    by (simp add: totalPages_div news) (simp add: twentyFive_def)
  have d: "drop 20 (news twentyFive) = map (\<lambda>i. JNum (Finite (of_nat i))) [21 ..< 26]"
    by (simp add: twentyFive_def drop_map)
  show ?thesis
    using pagination_slice [OF h1 h2, of 3] h1 h2 d news
    by (simp add: twentyFive_def)
qed

section \<open>Properties of the article line\<close>

lemma substring_prefix: "0 \<le> n \<Longrightarrow> substring s 0 n = take (nat n) s"
  by (simp add: substring_def Let_def min_def max_def)

text \<open>
  C8 (as the code has it). The description line shows the first 120 code units of the
  description, followed by three full stops \<open>...\<close> exactly when the description is longer
  than 120: one of at most 120 code units is shown as it is, one of 121 is shown as its
  first 120 followed by \<open>...\<close>.
\<close>

theorem description_truncation:
  "descriptionText (JStr d) = Inr (take 120 d @ (if 120 < length d then ustr ''...'' else []))
   \<and> (length d \<le> 120 \<longrightarrow> descriptionText (JStr d) = Inr d)
   \<and> (length d = 121 \<longrightarrow> descriptionText (JStr d) = Inr (take 120 d @ ustr ''...''))"
  by (simp add: substring_prefix)

theorem description_truncation_witness:
  "descriptionText (JStr (replicate 120 0x61)) = Inr (replicate 120 0x61)
   \<and> descriptionText (JStr (replicate 121 0x61)) = Inr (replicate 120 0x61 @ [0x2E, 0x2E, 0x2E])"
  using description_truncation [of "replicate 120 0x61"]
    description_truncation [of "replicate 121 0x61"]
  by (simp add: ustr_def del: descriptionText.simps)

text \<open>
  C8 as stated fails: what follows the first 120 code units of a description of 121 is
  not the single character U+2026.
\<close>

theorem description_ellipsis_counterexample:
  "descriptionText (JStr (replicate 121 0x61)) \<noteq> Inr (replicate 120 0x61 @ [0x2026])"
  by (simp add: substring_prefix ustr_def)

text \<open>
  C7. \<open>formatDate\<close> never throws, but a date string that does not parse is rendered as
  \<open>Invalid Date\<close>, not as the empty string: the \<open>catch\<close> that returns \<open>''\<close> is never entered.
\<close>

theorem formatDate_unparseable:
  "formatDate parse format dateString =
     (case parse dateString of None \<Rightarrow> ustr ''Invalid Date'' | Some t \<Rightarrow> format t)"
  by (simp add: formatDate_def toLocaleDateString_def newDate_def split: option.split)

section \<open>Properties of normalization\<close>

lemma ownProp_update:
  "ownProp (AList.update k v props) name = (if name = k then v else ownProp props name)"
  by (simp add: ownProp_def update_conv')

lemma normalizeArticle_object:
  "normalizeArticle (JObj props) =
     Inr (JObj (AList.update (ustr ''publishedAt'')
            (if truthy (ownProp props (ustr ''publishedAtString''))
             then ownProp props (ustr ''publishedAtString'')
             else ownProp props (ustr ''publishedAt'')) props))"
  by (simp add: normalizeArticle_def)

lemma mapE_objects:
  "mapE normalizeArticle (map JObj objs) =
     Inr (map (\<lambda>props. JObj (AList.update (ustr ''publishedAt'')
            (if truthy (ownProp props (ustr ''publishedAtString''))
             then ownProp props (ustr ''publishedAtString'')
             else ownProp props (ustr ''publishedAt'')) props)) objs)"
  by (induction objs) (simp_all add: normalizeArticle_object)

lemma mapArticles_objects:
  "mapArticles (JArr (map JObj objs)) =
     Inr (map (\<lambda>props. JObj (AList.update (ustr ''publishedAt'')
            (if truthy (ownProp props (ustr ''publishedAtString''))
             then ownProp props (ustr ''publishedAtString'')
             else ownProp props (ustr ''publishedAt'')) props)) objs)"
  by (simp add: mapE_objects)

section \<open>Properties of the validation\<close>

lemma split_js_none: "sep \<notin> set a \<Longrightarrow> split_js a sep = [a]"
  by (induction a) auto

lemma split_js_first: "sep \<notin> set a \<Longrightarrow> split_js (a @ sep # r) sep = a # split_js r sep"
  by (induction a) auto

lemma split_js_two:
  assumes "sep \<notin> set a" and "sep \<notin> set b" and "rest = [] \<or> (\<exists>r. rest = sep # r)"
  shows "\<exists>ps. split_js (a @ sep # b @ rest) sep = a # b # ps"
proof -
  from assms(3) have "\<exists>ps. split_js (b @ rest) sep = b # ps"
  proof
    assume "rest = []"
    then show ?thesis using assms(2) by (simp add: split_js_none)
  next
    assume "\<exists>r. rest = sep # r"
    then obtain r where "rest = sep # r" ..
    then show ?thesis using assms(2) by (simp add: split_js_first)
  qed
  then show ?thesis using assms(1) by (auto simp add: split_js_first)
qed

lemma comma_decompose:
  assumes "sep \<in> set cs"
  shows "\<exists>a b rest. cs = a @ sep # b @ rest \<and> sep \<notin> set a \<and> sep \<notin> set b
           \<and> (rest = [] \<or> (\<exists>r. rest = sep # r))"
proof -
  from assms obtain a r where cs: "cs = a @ sep # r" and a: "sep \<notin> set a"
    by (meson split_list_first)
  show ?thesis
  proof (cases "sep \<in> set r")
    case True
    then obtain b r' where "r = b @ sep # r'" and "sep \<notin> set b"
      by (meson split_list_first)
    with cs a show ?thesis by blast
  next
    case False
    with cs a have "cs = a @ sep # r @ [] \<and> sep \<notin> set a \<and> sep \<notin> set r" by simp
    then show ?thesis by blast
  qed
qed

lemma validateQuery_pieces:
  assumes "trim (searchQuery s) \<noteq> []"
    and "cityState toLowerCase s = a @ comma # b @ rest"
    and "comma \<notin> set a" and "comma \<notin> set b" and "rest = [] \<or> (\<exists>r. rest = comma # r)"
  shows "validateQuery toLowerCase s =
           (if trim a = [] \<or> trim b = [] then Inl invalidName else Inr (trim a, trim b))"
proof -
  from split_js_two [OF assms(3,4,5)] obtain ps
    where "split_js (a @ comma # b @ rest) comma = a # b # ps" ..
  then show ?thesis
    using assms(1,2) by (simp add: validateQuery_def includes_js_def)
qed

lemma validateQuery_blank:
  "trim (searchQuery s) = [] \<Longrightarrow> validateQuery toLowerCase s = Inl enterCityAndState"
  by (simp add: validateQuery_def)

lemma validateQuery_no_comma:
  "trim (searchQuery s) \<noteq> [] \<Longrightarrow> comma \<notin> set (cityState toLowerCase s)
   \<Longrightarrow> validateQuery toLowerCase s = Inl commaFormat"
  by (simp add: validateQuery_def includes_js_def)

lemma fetchCityNews_rejected:
  "validateQuery toLowerCase s = Inl m \<Longrightarrow> fetchCityNews toLowerCase net s = (s\<lparr>error := Some m\<rparr>, [])"
  by (simp add: fetchCityNews_def)

lemma validateQuery_Inr:
  assumes "validateQuery toLowerCase s = Inr (city, stateName)"
  shows "trim (searchQuery s) \<noteq> [] \<and> comma \<in> set (cityState toLowerCase s)"
  using assms by (auto simp add: validateQuery_def includes_js_def split: if_splits)

lemma validateQuery_Inl:
  assumes "validateQuery toLowerCase s = Inl m"
  shows "m \<in> {enterCityAndState, commaFormat, invalidName}"
  using assms by (auto simp add: validateQuery_def split: if_splits list.splits)

lemma cityNewsTry_first_request:
  assumes "cityInfoUrl city stateName = Inr u"
  shows "\<exists>rest. snd (snd (cityNewsTry net city stateName s)) = (u, s) # rest"
  using assms
  by (simp add: cityNewsTry_def split: fetch_outcome.split sum.split option.split)

lemma fetchCityNews_accepted:
  assumes "validateQuery toLowerCase s = Inr (city, stateName)"
  shows "fetchCityNews toLowerCase net s =
    (let r = cityNewsTry net city stateName
               (s\<lparr>error := None, loading := True, news := [], cityInfo := JNull, currentPage := 1\<rparr>)
     in ((case fst r of Some _ \<Rightarrow> (fst (snd r))\<lparr>error := Some tryAgain\<rparr> | None \<Rightarrow> fst (snd r))
            \<lparr>loading := False\<rparr>,
         snd (snd r)))"
proof -
  obtain thrown s' requests where
    "cityNewsTry net city stateName
       (s\<lparr>error := None, loading := True, news := [], cityInfo := JNull, currentPage := 1\<rparr>)
     = (thrown, s', requests)"
    by (rule prod_cases3)
  with assms show ?thesis
    by (simp add: fetchCityNews_def Let_def split: option.split)
qed

lemma mapE_null: "JNull \<in> set xs \<Longrightarrow> \<exists>e. mapE normalizeArticle xs = Inl e"
proof (induction xs)
  case Nil
  then show ?case by simp
next
  case (Cons x xs)
  show ?case
  proof (cases "x = JNull")
    case True
    then show ?thesis by (simp add: normalizeArticle_def)
  next
    case False
    with Cons obtain e where "mapE normalizeArticle xs = Inl e" by auto
    then show ?thesis by (simp split: sum.split)
  qed
qed

lemma mapArticles_unreadable:
  assumes "(\<forall>xs. data \<noteq> JArr xs) \<or> (\<exists>xs. data = JArr xs \<and> JNull \<in> set xs)"
  shows "\<exists>e. mapArticles data = Inl e"
  using assms
proof
  assume "\<forall>xs. data \<noteq> JArr xs"
  then show ?thesis by (cases data) simp_all
next
  assume "\<exists>xs. data = JArr xs \<and> JNull \<in> set xs"
  then show ?thesis using mapE_null by auto
qed

lemma cityNewsTry_news_response:
  assumes "cityInfoUrl city stateName = Inr u1" and "cityNewsUrl city stateName = Inr u2"
    and "net u1 = Resolves cityInfoResponse"
    and "ok cityInfoResponse \<longrightarrow> json cityInfoResponse \<noteq> None"
  shows "cityNewsTry net city stateName s =
    (let s' = (if ok cityInfoResponse
               then s\<lparr>cityInfo := (case json cityInfoResponse of Some d \<Rightarrow> d | None \<Rightarrow> JNull)\<rparr>
               else s)
     in case net u2 of
          Rejects \<Rightarrow> (Some FetchFailed, s', [(u1, s), (u2, s')])
        | Resolves response \<Rightarrow>
            (if ok response then
               (case json response of
                  None \<Rightarrow> (Some SyntaxError, s', [(u1, s), (u2, s')])
                | Some data \<Rightarrow>
                    (case mapArticles data of
                       Inl e \<Rightarrow> (Some e, s', [(u1, s), (u2, s')])
                     | Inr articles \<Rightarrow> (None, s'\<lparr>news := articles\<rparr>, [(u1, s), (u2, s')])))
             else if status response = 401 then
               (None, s'\<lparr>error := Some unauthorized\<rparr>, [(u1, s), (u2, s')])
             else
               (None,
                s'\<lparr>error := Some (ustr ''Error getting news: '' @ decimal (status response)
                   @ ustr '' '' @ statusText response)\<rparr>,
                [(u1, s), (u2, s')])))"
  using assms
  by (auto simp add: cityNewsTry_def Let_def split: fetch_outcome.split option.split sum.split)

lemma cityNewsTry_frame:
  assumes "cityNewsTry net city stateName s = (thrown, s', requests)"
  shows "loading s' = loading s \<and> currentPage s' = currentPage s
       \<and> (thrown \<noteq> None \<or> error s' \<noteq> error s \<longrightarrow> news s' = news s)
       \<and> (cityInfo s' = cityInfo s
            \<or> (\<exists>u r. cityInfoUrl city stateName = Inr u \<and> net u = Resolves r \<and> ok r
                  \<and> json r = Some (cityInfo s')))"
  using assms unfolding cityNewsTry_def
  by (auto split: sum.splits fetch_outcome.splits option.splits if_splits)

lemma encodeURIComponent_no_surrogates:
  "\<forall>c\<in>set s. \<not> isLeadSurrogate c \<and> \<not> isTrailSurrogate c \<Longrightarrow> \<exists>r. encodeURIComponent s = Inr r"
proof (induction s rule: encodeURIComponent.induct)
  case 1
  show ?case by simp
next
  case (2 c)
  then show ?case by simp
next
  case (3 c d ds)
  then have c: "\<not> isLeadSurrogate c" "\<not> isTrailSurrogate c"
    and rest: "\<forall>x\<in>set (d # ds). \<not> isLeadSurrogate x \<and> \<not> isTrailSurrogate x"
    by simp_all
  have "\<exists>r. encodeURIComponent (d # ds) = Inr r"
  proof (cases "unreserved c")
    case True
    with "3.IH"(1) rest show ?thesis by blast
  next
    case False
    with "3.IH"(3) c rest show ?thesis by blast
  qed
  then obtain r where "encodeURIComponent (d # ds) = Inr r" ..
  with c show ?case by simp
qed

lemma cityInfoUrl_no_surrogates:
  assumes "\<forall>c\<in>set (city @ stateName). \<not> isLeadSurrogate c \<and> \<not> isTrailSurrogate c"
  shows "\<exists>u. cityInfoUrl city stateName = Inr u"
proof -
  from assms obtain c t where "encodeURIComponent city = Inr c" "encodeURIComponent stateName = Inr t"
    using encodeURIComponent_no_surrogates [of city] encodeURIComponent_no_surrogates [of stateName]
    by auto
  then show ?thesis by (simp add: cityInfoUrl_def)
qed

lemma cityNewsUrl_of_cityInfoUrl:
  "cityInfoUrl city stateName = Inr u1 \<Longrightarrow> \<exists>u2. cityNewsUrl city stateName = Inr u2"
  by (auto simp add: cityInfoUrl_def cityNewsUrl_def split: sum.splits)

lemma fetchCityNews_unencodable:
  assumes v: "validateQuery toLowerCase s = Inr (city, stateName)"
    and u: "cityInfoUrl city stateName = Inl e"
  shows "snd (fetchCityNews toLowerCase net s) = []
    \<and> error (fst (fetchCityNews toLowerCase net s)) =
        Some (ustr ''Error getting news. Please try again.'')"
proof -
  have "cityNewsTry net city stateName s0 = (Some e, s0, [])" for s0
    using u by (simp add: cityNewsTry_def)
  then show ?thesis
    by (simp add: fetchCityNews_accepted [OF v] Let_def tryAgain_def)
qed

lemma fetchCityNews_first_only:
  assumes v: "validateQuery toLowerCase s = Inr (city, stateName)"
    and u: "cityInfoUrl city stateName = Inr u1"
    and f: "net u1 = Rejects \<or> (\<exists>r. net u1 = Resolves r \<and> ok r \<and> json r = None)"
  shows "snd (fetchCityNews toLowerCase net s) =
      [(u1, s\<lparr>error := None, loading := True, news := [], cityInfo := JNull, currentPage := 1\<rparr>)]
    \<and> error (fst (fetchCityNews toLowerCase net s)) =
        Some (ustr ''Error getting news. Please try again.'')"
proof -
  define s0 where "s0 = s\<lparr>error := None, loading := True, news := [], cityInfo := JNull,
      currentPage := 1\<rparr>"
  have "\<exists>e. cityNewsTry net city stateName s0 = (Some e, s0, [(u1, s0)])"
    using u f by (auto simp add: cityNewsTry_def)
  then obtain e where "cityNewsTry net city stateName s0 = (Some e, s0, [(u1, s0)])" ..
  then show ?thesis
    unfolding s0_def by (simp add: fetchCityNews_accepted [OF v] Let_def tryAgain_def)
qed

lemma fetchCityNews_both:
  assumes v: "validateQuery toLowerCase s = Inr (city, stateName)"
    and u: "cityInfoUrl city stateName = Inr u1"
    and c: "net u1 = Resolves r"
    and j: "ok r \<longrightarrow> json r \<noteq> None"
  shows "\<exists>u2. cityNewsUrl city stateName = Inr u2
           \<and> map fst (snd (fetchCityNews toLowerCase net s)) = [u1, u2]"
proof -
  from cityNewsUrl_of_cityInfoUrl [OF u] obtain u2 where u2: "cityNewsUrl city stateName = Inr u2" ..
  note run = fetchCityNews_accepted [OF v, of net]
    cityNewsTry_news_response [where net = net and ?u1.0 = u1, OF u u2 c j]
  have "map fst (snd (fetchCityNews toLowerCase net s)) = [u1, u2]"
    by (simp add: run Let_def split: fetch_outcome.split option.split sum.split)
  with u2 show ?thesis by (intro exI [of _ u2] conjI)
qed

text \<open>
  C2 (as the code has it). When the query is not blank and the canonical location string
  (the matched suggestion, or the query itself) has no comma, \<open>fetchCityNews\<close> sets the
  comma-format message and returns: no request is issued, and the articles, the city-info,
  the page and the loading flag stay as they were.
\<close>

theorem comma_format_error:
  assumes "trim (searchQuery s) \<noteq> []" and "comma \<notin> set (cityState toLowerCase s)"
  shows "error (fst (fetchCityNews toLowerCase net s)) =
           Some (ustr ''Please enter city and state separated by a comma (e.g., Miami, Florida).'')
       \<and> snd (fetchCityNews toLowerCase net s) = []
       \<and> news (fst (fetchCityNews toLowerCase net s)) = news s
       \<and> cityInfo (fst (fetchCityNews toLowerCase net s)) = cityInfo s
       \<and> currentPage (fst (fetchCityNews toLowerCase net s)) = currentPage s
       \<and> loading (fst (fetchCityNews toLowerCase net s)) = loading s"
  using fetchCityNews_rejected [OF validateQuery_no_comma [OF assms], of net]
  by (simp add: commaFormat_def)

theorem comma_format_error_witness:
  "trim (searchQuery miamiOnly) \<noteq> [] \<and> comma \<notin> set (cityState asciiLower miamiOnly)
   \<and> error (fst (fetchCityNews asciiLower alwaysEmpty miamiOnly)) =
           Some (ustr ''Please enter city and state separated by a comma (e.g., Miami, Florida).'')
   \<and> snd (fetchCityNews asciiLower alwaysEmpty miamiOnly) = []
   \<and> news (fst (fetchCityNews asciiLower alwaysEmpty miamiOnly)) = [JObj anArticle]
   \<and> currentPage (fst (fetchCityNews asciiLower alwaysEmpty miamiOnly)) = 2"
proof -
  have h1: "trim (searchQuery miamiOnly) \<noteq> []"
    by (simp add: miamiOnly_def initial_def ustr_def trim_def isWhiteSpace_def)
  have h2: "comma \<notin> set (cityState asciiLower miamiOnly)"
    by (simp add: miamiOnly_def initial_def ustr_def cityState_def matchedOption_def comma_def)
  show ?thesis
    using comma_format_error [OF h1 h2, of alwaysEmpty] h1 h2
    by (simp add: miamiOnly_def initial_def)
qed

text \<open>
  C2 as stated fails on a blank query: it has no comma, and the message set is the one
  that asks for a city and state.
\<close>

theorem blank_query_counterexample:
  "comma \<notin> set (cityState asciiLower blankQuery)
   \<and> error (fst (fetchCityNews asciiLower alwaysEmpty blankQuery)) =
        Some (ustr ''Please enter a city and state.'')
   \<and> error (fst (fetchCityNews asciiLower alwaysEmpty blankQuery)) \<noteq>
        Some (ustr ''Please enter city and state separated by a comma (e.g., Miami, Florida).'')"
proof -
  have b: "trim (searchQuery blankQuery) = []"
    by (simp add: blankQuery_def initial_def ustr_def trim_def isWhiteSpace_def)
  have c: "comma \<notin> set (cityState asciiLower blankQuery)"
    by (simp add: blankQuery_def initial_def ustr_def cityState_def matchedOption_def comma_def)
  have "fetchCityNews asciiLower alwaysEmpty blankQuery
        = (blankQuery\<lparr>error := Some enterCityAndState\<rparr>, [])"
    using b by (simp add: fetchCityNews_rejected validateQuery_blank)
  then show ?thesis
    using c by (simp add: enterCityAndState_def ustr_def)
qed

text \<open>
  C3 (as the code has it). A search is started exactly when the query is not blank and the
  canonical location string has a comma, with the text before the first comma and the
  text between the first comma and the second (or the end) both non-empty once trimmed;
  these two, trimmed, are the city and the state, and whatever follows a second comma is
  ignored. A rejected query sets one of the three validation messages and issues no
  request. A started search issues the city-info request and then the news request when
  the city-info fetch resolves (with a JSON body when its status is 2xx); only the
  city-info request when that fetch rejects or resolves 2xx with a body that is no JSON;
  and no request when \<open>encodeURIComponent\<close> throws on the city or the state, which it does
  not on strings without surrogate code units. In the last two cases the message is
  \<open>Error getting news. Please try again.\<close>
\<close>

theorem validation_accepts:
  "((\<exists>city stateName. validateQuery toLowerCase s = Inr (city, stateName)) \<longleftrightarrow>
      trim (searchQuery s) \<noteq> [] \<and>
      (\<exists>a b rest. cityState toLowerCase s = a @ comma # b @ rest
          \<and> comma \<notin> set a \<and> comma \<notin> set b \<and> (rest = [] \<or> (\<exists>r. rest = comma # r))
          \<and> trim a \<noteq> [] \<and> trim b \<noteq> []))
   \<and> (\<forall>a b rest. trim (searchQuery s) \<noteq> [] \<and> cityState toLowerCase s = a @ comma # b @ rest
          \<and> comma \<notin> set a \<and> comma \<notin> set b \<and> (rest = [] \<or> (\<exists>r. rest = comma # r))
        \<longrightarrow> validateQuery toLowerCase s =
              (if trim a = [] \<or> trim b = [] then Inl invalidName else Inr (trim a, trim b)))
   \<and> (\<forall>m. validateQuery toLowerCase s = Inl m
        \<longrightarrow> m \<in> {enterCityAndState, commaFormat, invalidName}
            \<and> fetchCityNews toLowerCase net s = (s\<lparr>error := Some m\<rparr>, []))
   \<and> (\<forall>city stateName u. validateQuery toLowerCase s = Inr (city, stateName)
           \<and> cityInfoUrl city stateName = Inr u
        \<longrightarrow> (\<exists>rest. snd (fetchCityNews toLowerCase net s) =
              (u, s\<lparr>error := None, loading := True, news := [], cityInfo := JNull,
                    currentPage := 1\<rparr>) # rest))
   \<and> (\<forall>city stateName u1 r. validateQuery toLowerCase s = Inr (city, stateName)
           \<and> cityInfoUrl city stateName = Inr u1
           \<and> net u1 = Resolves r \<and> (ok r \<longrightarrow> json r \<noteq> None)
        \<longrightarrow> (\<exists>u2. cityNewsUrl city stateName = Inr u2
              \<and> map fst (snd (fetchCityNews toLowerCase net s)) = [u1, u2]))
   \<and> (\<forall>city stateName u1. validateQuery toLowerCase s = Inr (city, stateName)
           \<and> cityInfoUrl city stateName = Inr u1
           \<and> (net u1 = Rejects \<or> (\<exists>r. net u1 = Resolves r \<and> ok r \<and> json r = None))
        \<longrightarrow> snd (fetchCityNews toLowerCase net s) =
              [(u1, s\<lparr>error := None, loading := True, news := [], cityInfo := JNull,
                     currentPage := 1\<rparr>)]
            \<and> error (fst (fetchCityNews toLowerCase net s)) =
                Some (ustr ''Error getting news. Please try again.''))
   \<and> (\<forall>city stateName e. validateQuery toLowerCase s = Inr (city, stateName)
           \<and> cityInfoUrl city stateName = Inl e
        \<longrightarrow> snd (fetchCityNews toLowerCase net s) = []
            \<and> error (fst (fetchCityNews toLowerCase net s)) =
                Some (ustr ''Error getting news. Please try again.''))
   \<and> (\<forall>city stateName.
          (\<forall>c\<in>set (city @ stateName). \<not> isLeadSurrogate c \<and> \<not> isTrailSurrogate c)
        \<longrightarrow> (\<exists>u1. cityInfoUrl city stateName = Inr u1))"
proof (intro conjI allI impI)
  show "(\<exists>city stateName. validateQuery toLowerCase s = Inr (city, stateName)) \<longleftrightarrow>
      trim (searchQuery s) \<noteq> [] \<and>
      (\<exists>a b rest. cityState toLowerCase s = a @ comma # b @ rest
          \<and> comma \<notin> set a \<and> comma \<notin> set b \<and> (rest = [] \<or> (\<exists>r. rest = comma # r))
          \<and> trim a \<noteq> [] \<and> trim b \<noteq> [])"
    (is "?accepted \<longleftrightarrow> ?nonblank \<and> ?pieces")
  proof
    assume ?accepted
    then obtain city stateName where v: "validateQuery toLowerCase s = Inr (city, stateName)"
      by blast
    from validateQuery_Inr [OF v] have nb: ?nonblank and c: "comma \<in> set (cityState toLowerCase s)"
      by simp_all
    from comma_decompose [OF c] obtain a b rest where
      d: "cityState toLowerCase s = a @ comma # b @ rest" "comma \<notin> set a" "comma \<notin> set b"
         "rest = [] \<or> (\<exists>r. rest = comma # r)"
      by blast
    from validateQuery_pieces [OF nb d] v have "trim a \<noteq> [] \<and> trim b \<noteq> []"
      by (simp split: if_splits)
    with nb d show "?nonblank \<and> ?pieces" by blast
  next
    assume "?nonblank \<and> ?pieces"
    then obtain a b rest where nb: ?nonblank and
      d: "cityState toLowerCase s = a @ comma # b @ rest" "comma \<notin> set a" "comma \<notin> set b"
         "rest = [] \<or> (\<exists>r. rest = comma # r)"
      and t: "trim a \<noteq> []" "trim b \<noteq> []"
      by blast
    from validateQuery_pieces [OF nb d] t show ?accepted by simp
  qed
next
  fix a b rest
  assume "trim (searchQuery s) \<noteq> [] \<and> cityState toLowerCase s = a @ comma # b @ rest
          \<and> comma \<notin> set a \<and> comma \<notin> set b \<and> (rest = [] \<or> (\<exists>r. rest = comma # r))"
  then show "validateQuery toLowerCase s =
              (if trim a = [] \<or> trim b = [] then Inl invalidName else Inr (trim a, trim b))"
    using validateQuery_pieces [of s toLowerCase a b rest] by blast
next
  fix m assume "validateQuery toLowerCase s = Inl m"
  then show "m \<in> {enterCityAndState, commaFormat, invalidName}"
    by (rule validateQuery_Inl)
next
  fix m assume "validateQuery toLowerCase s = Inl m"
  then show "fetchCityNews toLowerCase net s = (s\<lparr>error := Some m\<rparr>, [])"
    by (rule fetchCityNews_rejected)
next
  fix city stateName u
  assume "validateQuery toLowerCase s = Inr (city, stateName) \<and> cityInfoUrl city stateName = Inr u"
  then show "\<exists>rest. snd (fetchCityNews toLowerCase net s) =
              (u, s\<lparr>error := None, loading := True, news := [], cityInfo := JNull,
                    currentPage := 1\<rparr>) # rest"
    using cityNewsTry_first_request [of city stateName u net]
    by (simp add: fetchCityNews_accepted Let_def)
next
  fix city stateName u1 r
  assume "validateQuery toLowerCase s = Inr (city, stateName)
           \<and> cityInfoUrl city stateName = Inr u1
           \<and> net u1 = Resolves r \<and> (ok r \<longrightarrow> json r \<noteq> None)"
  then show "\<exists>u2. cityNewsUrl city stateName = Inr u2
              \<and> map fst (snd (fetchCityNews toLowerCase net s)) = [u1, u2]"
    using fetchCityNews_both [of toLowerCase s city stateName u1 net r] by blast
next
  fix city stateName u1
  assume a: "validateQuery toLowerCase s = Inr (city, stateName)
           \<and> cityInfoUrl city stateName = Inr u1
           \<and> (net u1 = Rejects \<or> (\<exists>r. net u1 = Resolves r \<and> ok r \<and> json r = None))"
  from a show "snd (fetchCityNews toLowerCase net s) =
              [(u1, s\<lparr>error := None, loading := True, news := [], cityInfo := JNull,
                     currentPage := 1\<rparr>)]"
    using fetchCityNews_first_only [of toLowerCase s city stateName u1 net] by blast
  from a show "error (fst (fetchCityNews toLowerCase net s)) =
                Some (ustr ''Error getting news. Please try again.'')"
    using fetchCityNews_first_only [of toLowerCase s city stateName u1 net] by blast
next
  fix city stateName e
  assume a: "validateQuery toLowerCase s = Inr (city, stateName)
           \<and> cityInfoUrl city stateName = Inl e"
  from a show "snd (fetchCityNews toLowerCase net s) = []"
    using fetchCityNews_unencodable [of toLowerCase s city stateName e net] by blast
  from a show "error (fst (fetchCityNews toLowerCase net s)) =
                Some (ustr ''Error getting news. Please try again.'')"
    using fetchCityNews_unencodable [of toLowerCase s city stateName e net] by blast
next
  fix city stateName
  assume "\<forall>c\<in>set (city @ stateName). \<not> isLeadSurrogate c \<and> \<not> isTrailSurrogate c"
  then show "\<exists>u1. cityInfoUrl city stateName = Inr u1"
    by (rule cityInfoUrl_no_surrogates)
qed

theorem validation_accepts_witness:
  "validateQuery asciiLower miamiUSA = Inr (ustr ''Miami'', ustr ''Florida'')
   \<and> (\<exists>rest. snd (fetchCityNews asciiLower alwaysEmpty miamiUSA) =
        (ustr ''http://51.21.218.3:8080/api/cities/Miami/Florida'',
         miamiUSA\<lparr>error := None, loading := True, news := [], cityInfo := JNull,
           currentPage := 1\<rparr>) # rest)
   \<and> validateQuery asciiLower noCity = Inl invalidName
   \<and> fetchCityNews asciiLower alwaysEmpty noCity = (noCity\<lparr>error := Some invalidName\<rparr>, [])
   \<and> map fst (snd (fetchCityNews asciiLower alwaysEmpty miamiUSA)) = [miamiCityUrl, miamiNewsUrl]
   \<and> map fst (snd (fetchCityNews asciiLower offline miamiUSA)) = [miamiCityUrl]
   \<and> error (fst (fetchCityNews asciiLower offline miamiUSA)) =
       Some (ustr ''Error getting news. Please try again.'')
   \<and> validateQuery asciiLower loneSurrogate =
       Inr (ustr ''Miami'', ustr ''Flo'' @ [0xD800] @ ustr ''rida'')
   \<and> snd (fetchCityNews asciiLower alwaysEmpty loneSurrogate) = []
   \<and> error (fst (fetchCityNews asciiLower alwaysEmpty loneSurrogate)) =
       Some (ustr ''Error getting news. Please try again.'')
   \<and> (\<exists>u1. cityInfoUrl (ustr ''Miami'') (ustr ''Florida'') = Inr u1)"
proof -
  have q: "trim (searchQuery miamiUSA) \<noteq> []"
    by (simp add: miamiUSA_def initial_def ustr_def trim_def isWhiteSpace_def)
  have cs: "cityState asciiLower miamiUSA = ustr ''Miami'' @ comma # ustr '' Florida'' @ ustr '', USA''"
    by (simp add: miamiUSA_def initial_def ustr_def cityState_def matchedOption_def comma_def)
  have a: "comma \<notin> set (ustr ''Miami'')" and b: "comma \<notin> set (ustr '' Florida'')"
    by (simp_all add: ustr_def comma_def)
  have r: "ustr '', USA'' = [] \<or> (\<exists>r. ustr '', USA'' = comma # r)"
    by (simp add: ustr_def comma_def)
  have ta: "trim (ustr ''Miami'') = ustr ''Miami''" and tb: "trim (ustr '' Florida'') = ustr ''Florida''"
    by (simp_all add: ustr_def trim_def isWhiteSpace_def)
  have ne: "ustr ''Miami'' \<noteq> []" "ustr ''Florida'' \<noteq> []"
    by (simp_all add: ustr_def)
  note usa = validation_accepts [of asciiLower miamiUSA alwaysEmpty]
  have v: "validateQuery asciiLower miamiUSA = Inr (ustr ''Miami'', ustr ''Florida'')"
    using usa [THEN conjunct2, THEN conjunct1,
        rule_format, of "ustr ''Miami''" "ustr '' Florida''" "ustr '', USA''"]
      q cs a b r
    by (simp add: ta tb ne)
  have f: "\<exists>rest. snd (fetchCityNews asciiLower alwaysEmpty miamiUSA) =
        (ustr ''http://51.21.218.3:8080/api/cities/Miami/Florida'',
         miamiUSA\<lparr>error := None, loading := True, news := [], cityInfo := JNull,
           currentPage := 1\<rparr>) # rest"
    using usa [THEN conjunct2, THEN conjunct2, THEN conjunct2, THEN conjunct1, rule_format,
        of "ustr ''Miami''" "ustr ''Florida''" miamiCityUrl] v miami_cityInfoUrl
    by (simp add: miamiCityUrl_def)
  have q': "trim (searchQuery noCity) \<noteq> []"
    by (simp add: noCity_def initial_def ustr_def trim_def isWhiteSpace_def)
  have cs': "cityState asciiLower noCity = [] @ comma # ustr '' Florida'' @ []"
    by (simp add: noCity_def initial_def ustr_def cityState_def matchedOption_def comma_def)
  note none = validation_accepts [of asciiLower noCity alwaysEmpty]
  have v': "validateQuery asciiLower noCity = Inl invalidName"
    using none [THEN conjunct2, THEN conjunct1, rule_format, of "[]" "ustr '' Florida''" "[]"]
      q' cs' b
    by (simp add: trim_def)
  have f': "fetchCityNews asciiLower alwaysEmpty noCity = (noCity\<lparr>error := Some invalidName\<rparr>, [])"
    using none [THEN conjunct2, THEN conjunct2, THEN conjunct1, rule_format, of invalidName] v'
    by simp
  have ok: "alwaysEmpty miamiCityUrl = Resolves (okResponse (JArr []))
      \<and> (ok (okResponse (JArr [])) \<longrightarrow> json (okResponse (JArr [])) \<noteq> None)"
    by (simp add: alwaysEmpty_def ok_okResponse)
  have both: "map fst (snd (fetchCityNews asciiLower alwaysEmpty miamiUSA)) = [miamiCityUrl, miamiNewsUrl]"
    using usa [THEN conjunct2, THEN conjunct2, THEN conjunct2, THEN conjunct2, THEN conjunct1,
        rule_format, of "ustr ''Miami''" "ustr ''Florida''" miamiCityUrl "okResponse (JArr [])"]
      v miami_cityInfoUrl ok miami_cityNewsUrl
    by auto
  have first: "map fst (snd (fetchCityNews asciiLower offline miamiUSA)) = [miamiCityUrl]
     \<and> error (fst (fetchCityNews asciiLower offline miamiUSA)) =
       Some (ustr ''Error getting news. Please try again.'')"
    using validation_accepts [of asciiLower miamiUSA offline, THEN conjunct2, THEN conjunct2,
        THEN conjunct2, THEN conjunct2, THEN conjunct2, THEN conjunct1,
        rule_format, of "ustr ''Miami''" "ustr ''Florida''" miamiCityUrl]
      v miami_cityInfoUrl
    by (simp add: offline_def)
  have vl: "validateQuery asciiLower loneSurrogate =
       Inr (ustr ''Miami'', ustr ''Flo'' @ [0xD800] @ ustr ''rida'')"
    by code_simp
  have ul: "cityInfoUrl (ustr ''Miami'') (ustr ''Flo'' @ [0xD800] @ ustr ''rida'') = Inl URIError"
    by code_simp
  have lone: "snd (fetchCityNews asciiLower alwaysEmpty loneSurrogate) = []
   \<and> error (fst (fetchCityNews asciiLower alwaysEmpty loneSurrogate)) =
       Some (ustr ''Error getting news. Please try again.'')"
    using validation_accepts [of asciiLower loneSurrogate alwaysEmpty, THEN conjunct2,
        THEN conjunct2, THEN conjunct2, THEN conjunct2, THEN conjunct2, THEN conjunct2,
        THEN conjunct1, rule_format,
        of "ustr ''Miami''" "ustr ''Flo'' @ [0xD800] @ ustr ''rida''" URIError]
      vl ul
    by simp
  have plain: "\<forall>c\<in>set (ustr ''Miami'' @ ustr ''Florida''). \<not> isLeadSurrogate c \<and> \<not> isTrailSurrogate c"
    by code_simp
  have enc: "\<exists>u1. cityInfoUrl (ustr ''Miami'') (ustr ''Florida'') = Inr u1"
    using usa [THEN conjunct2, THEN conjunct2, THEN conjunct2, THEN conjunct2, THEN conjunct2,
        THEN conjunct2, THEN conjunct2, rule_format, of "ustr ''Miami''" "ustr ''Florida''"] plain
    by blast
  show ?thesis using v f v' f' both first vl lone enc by blast
qed

text \<open>
  C3 as stated fails: a query with two commas is accepted, and both requests are issued.
\<close>

theorem two_commas_counterexample:
  "count_list (searchQuery miamiUSA) comma = 2
   \<and> map fst (snd (fetchCityNews asciiLower alwaysEmpty miamiUSA)) =
       [ustr ''http://51.21.218.3:8080/api/cities/Miami/Florida'',
        ustr ''http://51.21.218.3:8080/api/news/Miami/Florida'']
   \<and> error (fst (fetchCityNews asciiLower alwaysEmpty miamiUSA)) = None"
  by code_simp

section \<open>Properties of the global news\<close>

text \<open>
  C9. \<open>fetchGlobalNews\<close> checks nothing about the query: in every state it issues exactly
  one request, to the global news endpoint, after the error, the articles, the city-info
  and the page have been reset. The city-info stays \<open>null\<close>. A fetch that rejects gives
  \<open>Network error\<close>, a status outside 2xx other than 401 gives \<open>Error: status statusText\<close>,
  401 gives the unauthorized message, and a 2xx list of articles is stored normalized.
\<close>

theorem global_news:
  "snd (fetchGlobalNews net s) =
     [(ustr ''http://51.21.218.3:8080/api/news/global'',
       s\<lparr>loading := True, error := None, news := [], cityInfo := JNull, currentPage := 1\<rparr>)]
   \<and> cityInfo (fst (fetchGlobalNews net s)) = JNull
   \<and> loading (fst (fetchGlobalNews net s)) = False
   \<and> (net globalNewsUrl = Rejects \<longrightarrow>
        error (fst (fetchGlobalNews net s)) = Some (ustr ''Network error'')
        \<and> news (fst (fetchGlobalNews net s)) = [])
   \<and> (\<forall>r. net globalNewsUrl = Resolves r \<and> \<not> ok r \<and> status r \<noteq> 401 \<longrightarrow>
        error (fst (fetchGlobalNews net s)) =
          Some (ustr ''Error: '' @ decimal (status r) @ ustr '' '' @ statusText r)
        \<and> news (fst (fetchGlobalNews net s)) = [])
   \<and> (\<forall>r. net globalNewsUrl = Resolves r \<and> status r = 401 \<longrightarrow>
        error (fst (fetchGlobalNews net s)) =
          Some (ustr ''Unauthorized: please enter your login and password.'')
        \<and> news (fst (fetchGlobalNews net s)) = [])
   \<and> (\<forall>r objs. net globalNewsUrl = Resolves r \<and> ok r \<and> json r = Some (JArr (map JObj objs)) \<longrightarrow>
        error (fst (fetchGlobalNews net s)) = None
        \<and> currentPage (fst (fetchGlobalNews net s)) = 1
        \<and> news (fst (fetchGlobalNews net s)) =
            map (\<lambda>props. JObj (AList.update (ustr ''publishedAt'')
              (if truthy (ownProp props (ustr ''publishedAtString''))
               then ownProp props (ustr ''publishedAtString'')
               else ownProp props (ustr ''publishedAt'')) props)) objs)"
proof -
  have trace: "snd (fetchGlobalNews net s) =
     [(globalNewsUrl,
       s\<lparr>loading := True, error := None, news := [], cityInfo := JNull, currentPage := 1\<rparr>)]"
    by (simp add: fetchGlobalNews_def globalNewsTry_def
        split: fetch_outcome.split option.split sum.split)
  have city: "cityInfo (fst (fetchGlobalNews net s)) = JNull"
    by (simp add: fetchGlobalNews_def globalNewsTry_def
        split: fetch_outcome.split option.split sum.split)
  have load: "loading (fst (fetchGlobalNews net s)) = False"
    by (simp add: fetchGlobalNews_def globalNewsTry_def
        split: fetch_outcome.split option.split sum.split)
  have rej: "net globalNewsUrl = Rejects \<Longrightarrow>
        error (fst (fetchGlobalNews net s)) = Some (ustr ''Network error'')
        \<and> news (fst (fetchGlobalNews net s)) = []"
    by (simp add: fetchGlobalNews_def globalNewsTry_def networkError_def)
  have other: "net globalNewsUrl = Resolves r \<and> \<not> ok r \<and> status r \<noteq> 401 \<Longrightarrow>
        error (fst (fetchGlobalNews net s)) =
          Some (ustr ''Error: '' @ decimal (status r) @ ustr '' '' @ statusText r)
        \<and> news (fst (fetchGlobalNews net s)) = []" for r
    by (simp add: fetchGlobalNews_def globalNewsTry_def)
  have unauth: "net globalNewsUrl = Resolves r \<and> status r = 401 \<Longrightarrow>
        error (fst (fetchGlobalNews net s)) =
          Some (ustr ''Unauthorized: please enter your login and password.'')
        \<and> news (fst (fetchGlobalNews net s)) = []" for r
    by (simp add: fetchGlobalNews_def globalNewsTry_def ok_def unauthorized_def)
  have success: "net globalNewsUrl = Resolves r \<and> ok r \<and> json r = Some (JArr (map JObj objs)) \<Longrightarrow>
        error (fst (fetchGlobalNews net s)) = None
        \<and> currentPage (fst (fetchGlobalNews net s)) = 1
        \<and> news (fst (fetchGlobalNews net s)) =
            map (\<lambda>props. JObj (AList.update (ustr ''publishedAt'')
              (if truthy (ownProp props (ustr ''publishedAtString''))
               then ownProp props (ustr ''publishedAtString'')
               else ownProp props (ustr ''publishedAt'')) props)) objs" for r objs
    by (simp add: fetchGlobalNews_def globalNewsTry_def mapArticles_objects del: mapArticles.simps)
  show ?thesis
    using trace city load rej other unauth success
    unfolding globalNewsUrl_def [symmetric]
    by (intro conjI allI impI) (simp_all add: globalNewsUrl_def)
qed

theorem global_news_witness:
  "snd (fetchGlobalNews offline miamiFlorida) =
     [(ustr ''http://51.21.218.3:8080/api/news/global'',
       miamiFlorida\<lparr>loading := True, error := None, news := [], cityInfo := JNull,
         currentPage := 1\<rparr>)]
   \<and> error (fst (fetchGlobalNews offline miamiFlorida)) = Some (ustr ''Network error'')
   \<and> error (fst (fetchGlobalNews
        (cityThen (Resolves (failure 500 (ustr ''Internal Server Error'')))) miamiFlorida)) =
       Some (ustr ''Error: 500 Internal Server Error'')
   \<and> error (fst (fetchGlobalNews
        (cityThen (Resolves (failure 401 (ustr ''Unauthorized'')))) miamiFlorida)) =
       Some (ustr ''Unauthorized: please enter your login and password.'')
   \<and> error (fst (fetchGlobalNews
        (cityThen (Resolves (okResponse (JArr [JObj anArticle])))) miamiFlorida)) = None
   \<and> news (fst (fetchGlobalNews
        (cityThen (Resolves (okResponse (JArr [JObj anArticle])))) miamiFlorida)) = [JObj anArticle]
   \<and> cityInfo (fst (fetchGlobalNews
        (cityThen (Resolves (okResponse (JArr [JObj anArticle])))) miamiFlorida)) = JNull"
proof -
  have g: "cityThen n globalNewsUrl = n" for n
    by (simp add: cityThen_def miamiServer_global)
  have d: "decimal 500 = ustr ''500''"
    by code_simp
  have 1: "snd (fetchGlobalNews offline miamiFlorida) =
     [(ustr ''http://51.21.218.3:8080/api/news/global'',
       miamiFlorida\<lparr>loading := True, error := None, news := [], cityInfo := JNull,
         currentPage := 1\<rparr>)]
   \<and> error (fst (fetchGlobalNews offline miamiFlorida)) = Some (ustr ''Network error'')"
    using global_news [of offline miamiFlorida] by (simp add: offline_def)
  have 2: "error (fst (fetchGlobalNews
        (cityThen (Resolves (failure 500 (ustr ''Internal Server Error'')))) miamiFlorida)) =
       Some (ustr ''Error: 500 Internal Server Error'')"
    using global_news
      [of "cityThen (Resolves (failure 500 (ustr ''Internal Server Error'')))" miamiFlorida]
    by (simp add: g failure_simps d ustr_def)
  have 3: "error (fst (fetchGlobalNews
        (cityThen (Resolves (failure 401 (ustr ''Unauthorized'')))) miamiFlorida)) =
       Some (ustr ''Unauthorized: please enter your login and password.'')"
    using global_news [of "cityThen (Resolves (failure 401 (ustr ''Unauthorized'')))" miamiFlorida]
    by (simp add: g failure_simps)
  note success = global_news
      [of "cityThen (Resolves (okResponse (JArr [JObj anArticle])))" miamiFlorida]
  have 4: "error (fst (fetchGlobalNews
        (cityThen (Resolves (okResponse (JArr [JObj anArticle])))) miamiFlorida)) = None
   \<and> news (fst (fetchGlobalNews
        (cityThen (Resolves (okResponse (JArr [JObj anArticle])))) miamiFlorida)) = [JObj anArticle]"
    using success [THEN conjunct2, THEN conjunct2, THEN conjunct2, THEN conjunct2,
        THEN conjunct2, THEN conjunct2, rule_format,
        of "okResponse (JArr [JObj anArticle])" "[anArticle]"]
    by (simp add: g ok_okResponse anArticle_normal)
  have 5: "cityInfo (fst (fetchGlobalNews
        (cityThen (Resolves (okResponse (JArr [JObj anArticle])))) miamiFlorida)) = JNull"
    using success by simp
  show ?thesis using 1 2 3 4 5 by simp
qed

section \<open>Properties of the city search\<close>

text \<open>
  C4 (as the code has it). In a started search whose city-info fetch has completed, so
  that the news request is issued: a 2xx response whose body is a list of article objects
  stores the normalized list and sets no error; a 401 sets the unauthorized message and
  leaves the city-info as the city-info fetch of this search made it; any other status
  outside 2xx sets \<open>Error getting news: status statusText\<close>; a fetch that rejects sets
  \<open>Error getting news. Please try again.\<close>, and so does a 2xx response whose body is no
  JSON, is no array, or is an array with a \<open>null\<close> in it.
\<close>

theorem news_response_handling:
  assumes v: "validateQuery toLowerCase s = Inr (city, stateName)"
    and u1: "cityInfoUrl city stateName = Inr u1"
    and u2: "cityNewsUrl city stateName = Inr u2"
    and c: "net u1 = Resolves cityInfoResponse"
    and j: "ok cityInfoResponse \<longrightarrow> json cityInfoResponse \<noteq> None"
  shows "map fst (snd (fetchCityNews toLowerCase net s)) = [u1, u2]
    \<and> loading (fst (fetchCityNews toLowerCase net s)) = False
    \<and> (\<forall>r objs. net u2 = Resolves r \<and> ok r \<and> json r = Some (JArr (map JObj objs)) \<longrightarrow>
          error (fst (fetchCityNews toLowerCase net s)) = None
          \<and> news (fst (fetchCityNews toLowerCase net s)) =
              map (\<lambda>props. JObj (AList.update (ustr ''publishedAt'')
                (if truthy (ownProp props (ustr ''publishedAtString''))
                 then ownProp props (ustr ''publishedAtString'')
                 else ownProp props (ustr ''publishedAt'')) props)) objs)
    \<and> (\<forall>r. net u2 = Resolves r \<and> status r = 401 \<longrightarrow>
          error (fst (fetchCityNews toLowerCase net s)) =
            Some (ustr ''Unauthorized: please enter your login and password.'')
          \<and> cityInfo (fst (fetchCityNews toLowerCase net s)) =
              (if ok cityInfoResponse
               then (case json cityInfoResponse of Some d \<Rightarrow> d | None \<Rightarrow> JNull)
               else JNull))
    \<and> (\<forall>r. net u2 = Resolves r \<and> \<not> ok r \<and> status r \<noteq> 401 \<longrightarrow>
          error (fst (fetchCityNews toLowerCase net s)) =
            Some (ustr ''Error getting news: '' @ decimal (status r) @ ustr '' '' @ statusText r))
    \<and> (net u2 = Rejects \<longrightarrow>
          error (fst (fetchCityNews toLowerCase net s)) =
            Some (ustr ''Error getting news. Please try again.''))
    \<and> (\<forall>r. net u2 = Resolves r \<and> ok r
            \<and> (json r = None
                \<or> (\<exists>data. json r = Some data \<and> (\<forall>xs. data \<noteq> JArr xs))
                \<or> (\<exists>xs. json r = Some (JArr xs) \<and> JNull \<in> set xs)) \<longrightarrow>
          error (fst (fetchCityNews toLowerCase net s)) =
            Some (ustr ''Error getting news. Please try again.'')
          \<and> news (fst (fetchCityNews toLowerCase net s)) = [])"
proof -
  note run = fetchCityNews_accepted [OF v, of net]
    cityNewsTry_news_response [where net = net and ?u1.0 = u1, OF u1 u2 c j]
  have trace: "map fst (snd (fetchCityNews toLowerCase net s)) = [u1, u2]"
    by (simp add: run Let_def split: fetch_outcome.split option.split sum.split)
  have load: "loading (fst (fetchCityNews toLowerCase net s)) = False"
    by (simp add: run Let_def split: fetch_outcome.split option.split sum.split)
  have success: "net u2 = Resolves r \<and> ok r \<and> json r = Some (JArr (map JObj objs)) \<Longrightarrow>
          error (fst (fetchCityNews toLowerCase net s)) = None
          \<and> news (fst (fetchCityNews toLowerCase net s)) =
              map (\<lambda>props. JObj (AList.update (ustr ''publishedAt'')
                (if truthy (ownProp props (ustr ''publishedAtString''))
                 then ownProp props (ustr ''publishedAtString'')
                 else ownProp props (ustr ''publishedAt'')) props)) objs" for r objs
    by (simp add: run Let_def mapArticles_objects del: mapArticles.simps)
  have unauth: "net u2 = Resolves r \<and> status r = 401 \<Longrightarrow>
          error (fst (fetchCityNews toLowerCase net s)) =
            Some (ustr ''Unauthorized: please enter your login and password.'')
          \<and> cityInfo (fst (fetchCityNews toLowerCase net s)) =
              (if ok cityInfoResponse
               then (case json cityInfoResponse of Some d \<Rightarrow> d | None \<Rightarrow> JNull)
               else JNull)" for r
    by (simp add: run Let_def ok_def [of r] unauthorized_def)
  have other: "net u2 = Resolves r \<and> \<not> ok r \<and> status r \<noteq> 401 \<Longrightarrow>
          error (fst (fetchCityNews toLowerCase net s)) =
            Some (ustr ''Error getting news: '' @ decimal (status r) @ ustr '' '' @ statusText r)" for r
    by (simp add: run Let_def)
  have rej: "net u2 = Rejects \<Longrightarrow>
          error (fst (fetchCityNews toLowerCase net s)) =
            Some (ustr ''Error getting news. Please try again.'')"
    by (simp add: run Let_def tryAgain_def)
  have unreadable: "error (fst (fetchCityNews toLowerCase net s)) =
            Some (ustr ''Error getting news. Please try again.'')
          \<and> news (fst (fetchCityNews toLowerCase net s)) = []"
    if r: "net u2 = Resolves r \<and> ok r
            \<and> (json r = None
                \<or> (\<exists>data. json r = Some data \<and> (\<forall>xs. data \<noteq> JArr xs))
                \<or> (\<exists>xs. json r = Some (JArr xs) \<and> JNull \<in> set xs))" for r
  proof (cases "json r")
    case None
    with r show ?thesis by (simp add: run Let_def tryAgain_def)
  next
    case (Some data)
    with r have "(\<forall>xs. data \<noteq> JArr xs) \<or> (\<exists>xs. data = JArr xs \<and> JNull \<in> set xs)"
      by auto
    from mapArticles_unreadable [OF this] obtain e where "mapArticles data = Inl e" ..
    with r Some show ?thesis by (simp add: run Let_def tryAgain_def)
  qed
  show ?thesis
    using trace load success unauth other rej unreadable by (intro conjI allI impI) simp_all
qed

theorem news_response_handling_witness:
  "error (fst (fetchCityNews asciiLower
       (cityThen (Resolves (failure 401 (ustr ''Unauthorized'')))) miamiFlorida)) =
     Some (ustr ''Unauthorized: please enter your login and password.'')
   \<and> cityInfo (fst (fetchCityNews asciiLower
       (cityThen (Resolves (failure 401 (ustr ''Unauthorized'')))) miamiFlorida)) = miamiCity
   \<and> error (fst (fetchCityNews asciiLower
       (cityThen (Resolves (failure 503 (ustr ''Service Unavailable'')))) miamiFlorida)) =
     Some (ustr ''Error getting news: 503 Service Unavailable'')
   \<and> error (fst (fetchCityNews asciiLower (cityThen Rejects) miamiFlorida)) =
     Some (ustr ''Error getting news. Please try again.'')
   \<and> error (fst (fetchCityNews asciiLower
       (cityThen (Resolves (okResponse (JArr [JObj anArticle])))) miamiFlorida)) = None
   \<and> news (fst (fetchCityNews asciiLower
       (cityThen (Resolves (okResponse (JArr [JObj anArticle])))) miamiFlorida)) = [JObj anArticle]
   \<and> error (fst (fetchCityNews asciiLower (cityThen (Resolves htmlPage)) miamiFlorida)) =
     Some (ustr ''Error getting news. Please try again.'')"
proof -
  have c: "cityThen n miamiCityUrl = Resolves (okResponse miamiCity)" for n
    by (simp add: cityThen_def miamiServer_city)
  have j: "ok (okResponse miamiCity) \<longrightarrow> json (okResponse miamiCity) \<noteq> None"
    by (simp add: ok_okResponse)
  have n: "cityThen n miamiNewsUrl = n" for n
    by (simp add: cityThen_def miamiServer_news)
  note facts = miamiFlorida_valid miami_cityInfoUrl miami_cityNewsUrl c j
  have d: "decimal 503 = ustr ''503''"
    by code_simp
  have 1: "error (fst (fetchCityNews asciiLower
       (cityThen (Resolves (failure 401 (ustr ''Unauthorized'')))) miamiFlorida)) =
     Some (ustr ''Unauthorized: please enter your login and password.'')
   \<and> cityInfo (fst (fetchCityNews asciiLower
       (cityThen (Resolves (failure 401 (ustr ''Unauthorized'')))) miamiFlorida)) = miamiCity"
    using news_response_handling
      [where net = "cityThen (Resolves (failure 401 (ustr ''Unauthorized'')))", OF facts]
    by (simp add: n failure_simps ok_okResponse)
  have 2: "error (fst (fetchCityNews asciiLower
       (cityThen (Resolves (failure 503 (ustr ''Service Unavailable'')))) miamiFlorida)) =
     Some (ustr ''Error getting news: 503 Service Unavailable'')"
    using news_response_handling
      [where net = "cityThen (Resolves (failure 503 (ustr ''Service Unavailable'')))", OF facts]
    by (simp add: n failure_simps d ustr_def)
  have 3: "error (fst (fetchCityNews asciiLower (cityThen Rejects) miamiFlorida)) =
     Some (ustr ''Error getting news. Please try again.'')"
    using news_response_handling [where net = "cityThen Rejects", OF facts]
    by (simp add: n)
  have 4: "error (fst (fetchCityNews asciiLower
       (cityThen (Resolves (okResponse (JArr [JObj anArticle])))) miamiFlorida)) = None
   \<and> news (fst (fetchCityNews asciiLower
       (cityThen (Resolves (okResponse (JArr [JObj anArticle])))) miamiFlorida)) = [JObj anArticle]"
    using news_response_handling
      [where net = "cityThen (Resolves (okResponse (JArr [JObj anArticle])))", OF facts,
        THEN conjunct2, THEN conjunct2, THEN conjunct1, rule_format,
        of "okResponse (JArr [JObj anArticle])" "[anArticle]"]
    by (simp add: n ok_okResponse anArticle_normal)
  have 5: "error (fst (fetchCityNews asciiLower (cityThen (Resolves htmlPage)) miamiFlorida)) =
     Some (ustr ''Error getting news. Please try again.'')"
    using news_response_handling [where net = "cityThen (Resolves htmlPage)", OF facts]
    by (simp add: n htmlPage_def ok_def)
  show ?thesis using 1 2 3 4 5 by simp
qed

text \<open>
  C4 as stated fails: a response with status 200 whose body is no JSON sets an error.
\<close>

theorem unreadable_body_counterexample:
  "ok htmlPage
   \<and> map fst (snd (fetchCityNews asciiLower (cityThen (Resolves htmlPage)) miamiFlorida)) =
       [ustr ''http://51.21.218.3:8080/api/cities/Miami/Florida'',
        ustr ''http://51.21.218.3:8080/api/news/Miami/Florida'']
   \<and> error (fst (fetchCityNews asciiLower (cityThen (Resolves htmlPage)) miamiFlorida)) =
       Some (ustr ''Error getting news. Please try again.'')
   \<and> news (fst (fetchCityNews asciiLower (cityThen (Resolves htmlPage)) miamiFlorida)) = []"
  by code_simp

text \<open>
  C5 (as the code has it). A city-info response with a status outside 2xx sets no error:
  the city-info stays \<open>null\<close>, the news request is issued, and the outcome is that of the
  news fetch. A city-info fetch that rejects ends the search: it is caught with the
  message \<open>Error getting news. Please try again.\<close>, and no news request is issued.
\<close>

theorem city_info_failure:
  assumes v: "validateQuery toLowerCase s = Inr (city, stateName)"
    and u1: "cityInfoUrl city stateName = Inr u1"
    and u2: "cityNewsUrl city stateName = Inr u2"
  shows "(\<forall>r1. net u1 = Resolves r1 \<and> \<not> ok r1 \<longrightarrow>
            snd (fetchCityNews toLowerCase net s) =
              [(u1, s\<lparr>error := None, loading := True, news := [], cityInfo := JNull,
                      currentPage := 1\<rparr>),
               (u2, s\<lparr>error := None, loading := True, news := [], cityInfo := JNull,
                      currentPage := 1\<rparr>)]
          \<and> cityInfo (fst (fetchCityNews toLowerCase net s)) = JNull
          \<and> (\<forall>r objs. net u2 = Resolves r \<and> ok r \<and> json r = Some (JArr (map JObj objs)) \<longrightarrow>
                error (fst (fetchCityNews toLowerCase net s)) = None
                \<and> news (fst (fetchCityNews toLowerCase net s)) =
                    map (\<lambda>props. JObj (AList.update (ustr ''publishedAt'')
                      (if truthy (ownProp props (ustr ''publishedAtString''))
                       then ownProp props (ustr ''publishedAtString'')
                       else ownProp props (ustr ''publishedAt'')) props)) objs))
       \<and> (net u1 = Rejects \<longrightarrow>
            error (fst (fetchCityNews toLowerCase net s)) =
              Some (ustr ''Error getting news. Please try again.'')
          \<and> snd (fetchCityNews toLowerCase net s) =
              [(u1, s\<lparr>error := None, loading := True, news := [], cityInfo := JNull,
                      currentPage := 1\<rparr>)]
          \<and> news (fst (fetchCityNews toLowerCase net s)) = []
          \<and> cityInfo (fst (fetchCityNews toLowerCase net s)) = JNull)"
proof (intro conjI allI impI)
  fix r1 assume a: "net u1 = Resolves r1 \<and> \<not> ok r1"
  then have c: "net u1 = Resolves r1" and j: "ok r1 \<longrightarrow> json r1 \<noteq> None"
    by simp_all
  note run = fetchCityNews_accepted [OF v, of net]
    cityNewsTry_news_response [where net = net and ?u1.0 = u1, OF u1 u2 c j]
  show "snd (fetchCityNews toLowerCase net s) =
              [(u1, s\<lparr>error := None, loading := True, news := [], cityInfo := JNull,
                      currentPage := 1\<rparr>),
               (u2, s\<lparr>error := None, loading := True, news := [], cityInfo := JNull,
                      currentPage := 1\<rparr>)]"
    using a by (simp add: run Let_def split: fetch_outcome.split option.split sum.split)
  show "cityInfo (fst (fetchCityNews toLowerCase net s)) = JNull"
    using a by (simp add: run Let_def split: fetch_outcome.split option.split sum.split)
  fix r objs assume "net u2 = Resolves r \<and> ok r \<and> json r = Some (JArr (map JObj objs))"
  then have n: "net u2 = Resolves r" "ok r" "json r = Some (JArr (map JObj objs))"
    by simp_all
  show "error (fst (fetchCityNews toLowerCase net s)) = None"
    and "news (fst (fetchCityNews toLowerCase net s)) =
                    map (\<lambda>props. JObj (AList.update (ustr ''publishedAt'')
                      (if truthy (ownProp props (ustr ''publishedAtString''))
                       then ownProp props (ustr ''publishedAtString'')
                       else ownProp props (ustr ''publishedAt'')) props)) objs"
    using n by (simp_all add: run Let_def mapArticles_objects del: mapArticles.simps)
next
  assume r: "net u1 = Rejects"
  have t: "cityNewsTry net city stateName s0 = (Some FetchFailed, s0, [(u1, s0)])" for s0
    using u1 r by (simp add: cityNewsTry_def)
  show "error (fst (fetchCityNews toLowerCase net s)) =
              Some (ustr ''Error getting news. Please try again.'')"
    and "snd (fetchCityNews toLowerCase net s) =
              [(u1, s\<lparr>error := None, loading := True, news := [], cityInfo := JNull,
                      currentPage := 1\<rparr>)]"
    and "news (fst (fetchCityNews toLowerCase net s)) = []"
    and "cityInfo (fst (fetchCityNews toLowerCase net s)) = JNull"
    by (simp_all add: fetchCityNews_accepted [OF v] t tryAgain_def Let_def)
qed

theorem city_info_failure_witness:
  "snd (fetchCityNews asciiLower
      (miamiServer (Resolves (failure 404 (ustr ''Not Found'')))
         (Resolves (okResponse (JArr [JObj anArticle])))) miamiFlorida) =
     [(miamiCityUrl, miamiFlorida\<lparr>error := None, loading := True, news := [],
         cityInfo := JNull, currentPage := 1\<rparr>),
      (miamiNewsUrl, miamiFlorida\<lparr>error := None, loading := True, news := [],
         cityInfo := JNull, currentPage := 1\<rparr>)]
   \<and> cityInfo (fst (fetchCityNews asciiLower
      (miamiServer (Resolves (failure 404 (ustr ''Not Found'')))
         (Resolves (okResponse (JArr [JObj anArticle])))) miamiFlorida)) = JNull
   \<and> error (fst (fetchCityNews asciiLower
      (miamiServer (Resolves (failure 404 (ustr ''Not Found'')))
         (Resolves (okResponse (JArr [JObj anArticle])))) miamiFlorida)) = None
   \<and> news (fst (fetchCityNews asciiLower
      (miamiServer (Resolves (failure 404 (ustr ''Not Found'')))
         (Resolves (okResponse (JArr [JObj anArticle])))) miamiFlorida)) = [JObj anArticle]
   \<and> error (fst (fetchCityNews asciiLower offline miamiFlorida)) =
       Some (ustr ''Error getting news. Please try again.'')
   \<and> map fst (snd (fetchCityNews asciiLower offline miamiFlorida)) = [miamiCityUrl]"
proof -
  define net where "net = miamiServer (Resolves (failure 404 (ustr ''Not Found'')))
         (Resolves (okResponse (JArr [JObj anArticle])))"
  note facts = miamiFlorida_valid miami_cityInfoUrl miami_cityNewsUrl
  have c: "net miamiCityUrl = Resolves (failure 404 (ustr ''Not Found''))
      \<and> \<not> ok (failure 404 (ustr ''Not Found''))"
    by (simp add: net_def miamiServer_city failure_simps)
  have n: "net miamiNewsUrl = Resolves (okResponse (JArr [JObj anArticle]))
      \<and> ok (okResponse (JArr [JObj anArticle]))
      \<and> json (okResponse (JArr [JObj anArticle])) = Some (JArr (map JObj [anArticle]))"
    by (simp add: net_def miamiServer_news ok_okResponse)
  from city_info_failure [where net = net, OF facts, THEN conjunct1, rule_format, OF c]
  have 1: "snd (fetchCityNews asciiLower net miamiFlorida) =
     [(miamiCityUrl, miamiFlorida\<lparr>error := None, loading := True, news := [],
         cityInfo := JNull, currentPage := 1\<rparr>),
      (miamiNewsUrl, miamiFlorida\<lparr>error := None, loading := True, news := [],
         cityInfo := JNull, currentPage := 1\<rparr>)]"
    and 2: "cityInfo (fst (fetchCityNews asciiLower net miamiFlorida)) = JNull"
    and 3: "\<forall>r objs. net miamiNewsUrl = Resolves r \<and> ok r \<and> json r = Some (JArr (map JObj objs)) \<longrightarrow>
                error (fst (fetchCityNews asciiLower net miamiFlorida)) = None
                \<and> news (fst (fetchCityNews asciiLower net miamiFlorida)) =
                    map (\<lambda>props. JObj (AList.update (ustr ''publishedAt'')
                      (if truthy (ownProp props (ustr ''publishedAtString''))
                       then ownProp props (ustr ''publishedAtString'')
                       else ownProp props (ustr ''publishedAt'')) props)) objs"
    by blast+
  from 3 [rule_format, OF n]
  have 4: "error (fst (fetchCityNews asciiLower net miamiFlorida)) = None
     \<and> news (fst (fetchCityNews asciiLower net miamiFlorida)) = [JObj anArticle]"
    by (simp add: anArticle_normal)
  have r: "offline miamiCityUrl = Rejects"
    by (simp add: offline_def)
  from city_info_failure [where net = offline, OF facts, THEN conjunct2, rule_format, OF r]
  have 5: "error (fst (fetchCityNews asciiLower offline miamiFlorida)) =
       Some (ustr ''Error getting news. Please try again.'')
   \<and> map fst (snd (fetchCityNews asciiLower offline miamiFlorida)) = [miamiCityUrl]"
    by simp
  show ?thesis
    using 1 2 4 5 unfolding net_def by simp
qed

text \<open>
  C5 as stated fails: when the city-info fetch rejects, an error is shown and the news
  request, which would have succeeded, is never issued.
\<close>

theorem city_info_rejects_counterexample:
  "error (fst (fetchCityNews asciiLower
      (miamiServer Rejects (Resolves (okResponse (JArr [JObj anArticle])))) miamiFlorida)) =
     Some (ustr ''Error getting news. Please try again.'')
   \<and> map fst (snd (fetchCityNews asciiLower
      (miamiServer Rejects (Resolves (okResponse (JArr [JObj anArticle])))) miamiFlorida)) =
     [ustr ''http://51.21.218.3:8080/api/cities/Miami/Florida'']
   \<and> news (fst (fetchCityNews asciiLower
      (miamiServer Rejects (Resolves (okResponse (JArr [JObj anArticle])))) miamiFlorida)) = []"
  by code_simp

section \<open>Properties of normalization in the handlers\<close>

text \<open>
  C10. For a 2xx response whose body is a list of article objects, both handlers store
  the list of the normalized articles, one for each article of the response and in its
  order. Normalizing an article object gives an object whose \<open>publishedAt\<close> is the
  article's \<open>publishedAtString\<close> when that is truthy (a non-empty string, for one) and the
  article's own \<open>publishedAt\<close> otherwise (when \<open>publishedAtString\<close> is missing or empty, for
  one); every other property reads as before, and the properties keep their order.
\<close>

theorem normalize_only_publishedAt:
  "mapArticles (JArr (map JObj objs)) = Inr (map (\<lambda>props. JObj (AList.update (ustr ''publishedAt'')
            (if truthy (ownProp props (ustr ''publishedAtString''))
             then ownProp props (ustr ''publishedAtString'')
             else ownProp props (ustr ''publishedAt'')) props)) objs)
   \<and> (\<forall>r. net globalNewsUrl = Resolves r \<and> ok r \<and> json r = Some (JArr (map JObj objs))
        \<longrightarrow> news (fst (fetchGlobalNews net s)) = map (\<lambda>props. JObj (AList.update (ustr ''publishedAt'')
            (if truthy (ownProp props (ustr ''publishedAtString''))
             then ownProp props (ustr ''publishedAtString'')
             else ownProp props (ustr ''publishedAt'')) props)) objs)
   \<and> (\<forall>city stateName u1 u2 r1 r.
          validateQuery toLowerCase s = Inr (city, stateName)
          \<and> cityInfoUrl city stateName = Inr u1 \<and> cityNewsUrl city stateName = Inr u2
          \<and> net u1 = Resolves r1 \<and> (ok r1 \<longrightarrow> json r1 \<noteq> None)
          \<and> net u2 = Resolves r \<and> ok r \<and> json r = Some (JArr (map JObj objs))
        \<longrightarrow> news (fst (fetchCityNews toLowerCase net s)) = map (\<lambda>props. JObj (AList.update (ustr ''publishedAt'')
            (if truthy (ownProp props (ustr ''publishedAtString''))
             then ownProp props (ustr ''publishedAtString'')
             else ownProp props (ustr ''publishedAt'')) props)) objs)
   \<and> (\<exists>props'. normalizeArticle (JObj props) = Inr (JObj props')
     \<and> props' = AList.update (ustr ''publishedAt'')
            (if truthy (ownProp props (ustr ''publishedAtString''))
             then ownProp props (ustr ''publishedAtString'')
             else ownProp props (ustr ''publishedAt'')) props
     \<and> map_of props' (ustr ''publishedAt'') =
         Some (if truthy (ownProp props (ustr ''publishedAtString''))
               then ownProp props (ustr ''publishedAtString'')
               else ownProp props (ustr ''publishedAt''))
     \<and> (\<forall>t. map_of props (ustr ''publishedAtString'') = Some (JStr t) \<and> t \<noteq> []
           \<longrightarrow> map_of props' (ustr ''publishedAt'') = Some (JStr t))
     \<and> (map_of props (ustr ''publishedAtString'') = None
          \<or> map_of props (ustr ''publishedAtString'') = Some (JStr [])
           \<longrightarrow> map_of props' (ustr ''publishedAt'') = Some (ownProp props (ustr ''publishedAt'')))
     \<and> (\<forall>name. name \<noteq> ustr ''publishedAt'' \<longrightarrow> map_of props' name = map_of props name)
     \<and> map fst props' =
         (if ustr ''publishedAt'' \<in> fst ` set props then map fst props
          else map fst props @ [ustr ''publishedAt'']))"
proof -
  define v where "v = (if truthy (ownProp props (ustr ''publishedAtString''))
               then ownProp props (ustr ''publishedAtString'')
               else ownProp props (ustr ''publishedAt''))"
  define props' where "props' = AList.update (ustr ''publishedAt'') v props"
  have 1: "normalizeArticle (JObj props) = Inr (JObj props')"
    unfolding props'_def v_def by (rule normalizeArticle_object)
  have 2: "map_of props' (ustr ''publishedAt'') = Some v"
    by (simp add: props'_def update_conv')
  have 3: "map_of props (ustr ''publishedAtString'') = Some (JStr t) \<Longrightarrow> t \<noteq> [] \<Longrightarrow> v = JStr t" for t
    by (simp add: v_def ownProp_def)
  have 4: "map_of props (ustr ''publishedAtString'') = None
          \<or> map_of props (ustr ''publishedAtString'') = Some (JStr [])
      \<Longrightarrow> v = ownProp props (ustr ''publishedAt'')"
    by (auto simp add: v_def ownProp_def)
  have 5: "name \<noteq> ustr ''publishedAt'' \<Longrightarrow> map_of props' name = map_of props name" for name
    by (simp add: props'_def update_conv')
  have 6: "map fst props' =
         (if ustr ''publishedAt'' \<in> fst ` set props then map fst props
          else map fst props @ [ustr ''publishedAt''])"
    by (simp add: props'_def update_keys)
  have "\<exists>props'. normalizeArticle (JObj props) = Inr (JObj props')
     \<and> props' = AList.update (ustr ''publishedAt'') v props
     \<and> map_of props' (ustr ''publishedAt'') = Some v
     \<and> (\<forall>t. map_of props (ustr ''publishedAtString'') = Some (JStr t) \<and> t \<noteq> []
           \<longrightarrow> map_of props' (ustr ''publishedAt'') = Some (JStr t))
     \<and> (map_of props (ustr ''publishedAtString'') = None
          \<or> map_of props (ustr ''publishedAtString'') = Some (JStr [])
           \<longrightarrow> map_of props' (ustr ''publishedAt'') = Some (ownProp props (ustr ''publishedAt'')))
     \<and> (\<forall>name. name \<noteq> ustr ''publishedAt'' \<longrightarrow> map_of props' name = map_of props name)
     \<and> map fst props' =
         (if ustr ''publishedAt'' \<in> fst ` set props then map fst props
          else map fst props @ [ustr ''publishedAt''])"
    using 1 2 3 4 5 6 props'_def by (intro exI [of _ props'] conjI allI impI) simp_all
  then have object: "\<exists>props'. normalizeArticle (JObj props) = Inr (JObj props')
     \<and> props' = AList.update (ustr ''publishedAt'')
            (if truthy (ownProp props (ustr ''publishedAtString''))
             then ownProp props (ustr ''publishedAtString'')
             else ownProp props (ustr ''publishedAt'')) props
     \<and> map_of props' (ustr ''publishedAt'') =
         Some (if truthy (ownProp props (ustr ''publishedAtString''))
               then ownProp props (ustr ''publishedAtString'')
               else ownProp props (ustr ''publishedAt''))
     \<and> (\<forall>t. map_of props (ustr ''publishedAtString'') = Some (JStr t) \<and> t \<noteq> []
           \<longrightarrow> map_of props' (ustr ''publishedAt'') = Some (JStr t))
     \<and> (map_of props (ustr ''publishedAtString'') = None
          \<or> map_of props (ustr ''publishedAtString'') = Some (JStr [])
           \<longrightarrow> map_of props' (ustr ''publishedAt'') = Some (ownProp props (ustr ''publishedAt'')))
     \<and> (\<forall>name. name \<noteq> ustr ''publishedAt'' \<longrightarrow> map_of props' name = map_of props name)
     \<and> map fst props' =
         (if ustr ''publishedAt'' \<in> fst ` set props then map fst props
          else map fst props @ [ustr ''publishedAt''])"
    unfolding v_def .
  have global: "news (fst (fetchGlobalNews net s)) = map (\<lambda>props. JObj (AList.update (ustr ''publishedAt'')
            (if truthy (ownProp props (ustr ''publishedAtString''))
             then ownProp props (ustr ''publishedAtString'')
             else ownProp props (ustr ''publishedAt'')) props)) objs"
    if "net globalNewsUrl = Resolves r \<and> ok r \<and> json r = Some (JArr (map JObj objs))" for r
    using that
    by (simp add: fetchGlobalNews_def globalNewsTry_def mapArticles_objects del: mapArticles.simps)
  have city: "news (fst (fetchCityNews toLowerCase net s)) = map (\<lambda>props. JObj (AList.update (ustr ''publishedAt'')
            (if truthy (ownProp props (ustr ''publishedAtString''))
             then ownProp props (ustr ''publishedAtString'')
             else ownProp props (ustr ''publishedAt'')) props)) objs"
    if a: "validateQuery toLowerCase s = Inr (city, stateName)
          \<and> cityInfoUrl city stateName = Inr u1 \<and> cityNewsUrl city stateName = Inr u2
          \<and> net u1 = Resolves r1 \<and> (ok r1 \<longrightarrow> json r1 \<noteq> None)
          \<and> net u2 = Resolves r \<and> ok r \<and> json r = Some (JArr (map JObj objs))"
    for city stateName u1 u2 r1 r
  proof -
    from a have v: "validateQuery toLowerCase s = Inr (city, stateName)"
      and u1: "cityInfoUrl city stateName = Inr u1" and u2: "cityNewsUrl city stateName = Inr u2"
      and c: "net u1 = Resolves r1" and j: "ok r1 \<longrightarrow> json r1 \<noteq> None"
      and n: "net u2 = Resolves r" "ok r" "json r = Some (JArr (map JObj objs))"
      by simp_all
    note run = fetchCityNews_accepted [OF v, of net]
      cityNewsTry_news_response [where net = net and ?u1.0 = u1, OF u1 u2 c j]
    show ?thesis
      using n by (simp add: run Let_def mapArticles_objects del: mapArticles.simps)
  qed
  have global': "\<forall>r. net globalNewsUrl = Resolves r \<and> ok r \<and> json r = Some (JArr (map JObj objs))
        \<longrightarrow> news (fst (fetchGlobalNews net s)) = map (\<lambda>props. JObj (AList.update (ustr ''publishedAt'')
            (if truthy (ownProp props (ustr ''publishedAtString''))
             then ownProp props (ustr ''publishedAtString'')
             else ownProp props (ustr ''publishedAt'')) props)) objs"
    using global by blast
  have city': "\<forall>city stateName u1 u2 r1 r.
          validateQuery toLowerCase s = Inr (city, stateName)
          \<and> cityInfoUrl city stateName = Inr u1 \<and> cityNewsUrl city stateName = Inr u2
          \<and> net u1 = Resolves r1 \<and> (ok r1 \<longrightarrow> json r1 \<noteq> None)
          \<and> net u2 = Resolves r \<and> ok r \<and> json r = Some (JArr (map JObj objs))
        \<longrightarrow> news (fst (fetchCityNews toLowerCase net s)) = map (\<lambda>props. JObj (AList.update (ustr ''publishedAt'')
            (if truthy (ownProp props (ustr ''publishedAtString''))
             then ownProp props (ustr ''publishedAtString'')
             else ownProp props (ustr ''publishedAt'')) props)) objs"
    using city by blast
  show ?thesis
    by (rule conjI [OF mapArticles_objects conjI [OF global' conjI [OF city' object]]])
qed

theorem normalize_only_publishedAt_witness:
  "(\<exists>props'. normalizeArticle (JObj anArticle) = Inr (JObj props')
     \<and> map_of props' (ustr ''publishedAt'') = Some (JStr (ustr ''2024-05-01T10:00:00Z''))
     \<and> map_of props' (ustr ''title'') = Some (JStr (ustr ''Storm nears the coast''))
     \<and> map fst props' = map fst anArticle)
   \<and> (\<exists>props'. normalizeArticle (JObj datedArticle) = Inr (JObj props')
     \<and> map_of props' (ustr ''publishedAt'') = Some (JStr (ustr ''May 2, 2024''))
     \<and> map_of props' (ustr ''title'') = Some (JStr (ustr ''Harbour reopens''))
     \<and> map fst props' = map fst datedArticle @ [ustr ''publishedAt''])
   \<and> news (fst (fetchGlobalNews
        (cityThen (Resolves (okResponse (JArr [JObj anArticle, JObj datedArticle])))) miamiFlorida)) =
       [JObj anArticle,
        JObj (datedArticle @ [(ustr ''publishedAt'', JStr (ustr ''May 2, 2024''))])]
   \<and> news (fst (fetchCityNews asciiLower
        (cityThen (Resolves (okResponse (JArr [JObj anArticle, JObj datedArticle])))) miamiFlorida)) =
       [JObj anArticle,
        JObj (datedArticle @ [(ustr ''publishedAt'', JStr (ustr ''May 2, 2024''))])]"
proof -
  have title: "ustr ''title'' \<noteq> ustr ''publishedAt''"
    by (simp add: ustr_def)
  from normalize_only_publishedAt [where props = anArticle, THEN conjunct2, THEN conjunct2, THEN conjunct2] obtain props' where
    n: "normalizeArticle (JObj anArticle) = Inr (JObj props')"
    and fallback: "map_of anArticle (ustr ''publishedAtString'') = None
          \<or> map_of anArticle (ustr ''publishedAtString'') = Some (JStr [])
           \<longrightarrow> map_of props' (ustr ''publishedAt'') = Some (ownProp anArticle (ustr ''publishedAt''))"
    and others: "\<forall>name. name \<noteq> ustr ''publishedAt'' \<longrightarrow> map_of props' name = map_of anArticle name"
    and keys: "map fst props' =
         (if ustr ''publishedAt'' \<in> fst ` set anArticle then map fst anArticle
          else map fst anArticle @ [ustr ''publishedAt''])"
    by blast
  have a: "map_of anArticle (ustr ''publishedAtString'') = Some (JStr [])"
    by (simp add: anArticle_def ustr_def)
  have b: "ownProp anArticle (ustr ''publishedAt'') = JStr (ustr ''2024-05-01T10:00:00Z'')"
    by (simp add: anArticle_def ustr_def ownProp_def)
  have d: "map_of anArticle (ustr ''title'') = Some (JStr (ustr ''Storm nears the coast''))"
    by (simp add: anArticle_def ustr_def)
  have e: "ustr ''publishedAt'' \<in> fst ` set anArticle"
    by (simp add: anArticle_def ustr_def)
  from fallback a b
  have "map_of props' (ustr ''publishedAt'') = Some (JStr (ustr ''2024-05-01T10:00:00Z''))"
    by simp
  moreover from others title d
  have "map_of props' (ustr ''title'') = Some (JStr (ustr ''Storm nears the coast''))"
    by simp
  moreover from keys e have "map fst props' = map fst anArticle"
    by simp
  ultimately have first: "\<exists>props'. normalizeArticle (JObj anArticle) = Inr (JObj props')
     \<and> map_of props' (ustr ''publishedAt'') = Some (JStr (ustr ''2024-05-01T10:00:00Z''))
     \<and> map_of props' (ustr ''title'') = Some (JStr (ustr ''Storm nears the coast''))
     \<and> map fst props' = map fst anArticle"
    using n by blast
  from normalize_only_publishedAt [where props = datedArticle, THEN conjunct2, THEN conjunct2, THEN conjunct2] obtain props'' where
    n': "normalizeArticle (JObj datedArticle) = Inr (JObj props'')"
    and preferred: "\<forall>t. map_of datedArticle (ustr ''publishedAtString'') = Some (JStr t) \<and> t \<noteq> []
           \<longrightarrow> map_of props'' (ustr ''publishedAt'') = Some (JStr t)"
    and others': "\<forall>name. name \<noteq> ustr ''publishedAt'' \<longrightarrow> map_of props'' name = map_of datedArticle name"
    and keys': "map fst props'' =
         (if ustr ''publishedAt'' \<in> fst ` set datedArticle then map fst datedArticle
          else map fst datedArticle @ [ustr ''publishedAt''])"
    by blast
  have a': "map_of datedArticle (ustr ''publishedAtString'') = Some (JStr (ustr ''May 2, 2024''))
      \<and> ustr ''May 2, 2024'' \<noteq> []"
    by (simp add: datedArticle_def ustr_def)
  have d': "map_of datedArticle (ustr ''title'') = Some (JStr (ustr ''Harbour reopens''))"
    by (simp add: datedArticle_def ustr_def)
  have e': "ustr ''publishedAt'' \<notin> fst ` set datedArticle"
    by (simp add: datedArticle_def ustr_def)
  from preferred a'
  have "map_of props'' (ustr ''publishedAt'') = Some (JStr (ustr ''May 2, 2024''))"
    by blast
  moreover from others' title d'
  have "map_of props'' (ustr ''title'') = Some (JStr (ustr ''Harbour reopens''))"
    by simp
  moreover from keys' e' have "map fst props'' = map fst datedArticle @ [ustr ''publishedAt'']"
    by simp
  ultimately have second: "\<exists>props'. normalizeArticle (JObj datedArticle) = Inr (JObj props')
     \<and> map_of props' (ustr ''publishedAt'') = Some (JStr (ustr ''May 2, 2024''))
     \<and> map_of props' (ustr ''title'') = Some (JStr (ustr ''Harbour reopens''))
     \<and> map fst props' = map fst datedArticle @ [ustr ''publishedAt'']"
    using n' by blast
  define net where
    "net = cityThen (Resolves (okResponse (JArr [JObj anArticle, JObj datedArticle])))"
  have dated: "AList.update (ustr ''publishedAt'')
     (if truthy (ownProp datedArticle (ustr ''publishedAtString''))
      then ownProp datedArticle (ustr ''publishedAtString'')
      else ownProp datedArticle (ustr ''publishedAt'')) datedArticle
     = datedArticle @ [(ustr ''publishedAt'', JStr (ustr ''May 2, 2024''))]"
    by code_simp
  have body: "json (okResponse (JArr [JObj anArticle, JObj datedArticle])) =
      Some (JArr (map JObj [anArticle, datedArticle]))"
    by (simp add: ok_okResponse)
  have g: "net globalNewsUrl = Resolves (okResponse (JArr [JObj anArticle, JObj datedArticle]))"
    by (simp add: net_def cityThen_def miamiServer_global)
  have c: "net miamiCityUrl = Resolves (okResponse miamiCity)"
    by (simp add: net_def cityThen_def miamiServer_city)
  have n: "net miamiNewsUrl = Resolves (okResponse (JArr [JObj anArticle, JObj datedArticle]))"
    by (simp add: net_def cityThen_def miamiServer_news)
  have third: "news (fst (fetchGlobalNews net miamiFlorida)) =
       [JObj anArticle,
        JObj (datedArticle @ [(ustr ''publishedAt'', JStr (ustr ''May 2, 2024''))])]"
    using normalize_only_publishedAt [where net = net and s = miamiFlorida
        and objs = "[anArticle, datedArticle]", THEN conjunct2, THEN conjunct1, rule_format,
        of "okResponse (JArr [JObj anArticle, JObj datedArticle])"]
      g body
    by (simp add: ok_okResponse anArticle_normal dated)
  have fourth: "news (fst (fetchCityNews asciiLower net miamiFlorida)) =
       [JObj anArticle,
        JObj (datedArticle @ [(ustr ''publishedAt'', JStr (ustr ''May 2, 2024''))])]"
    using normalize_only_publishedAt [where net = net and s = miamiFlorida
        and toLowerCase = asciiLower
        and objs = "[anArticle, datedArticle]", THEN conjunct2, THEN conjunct2, THEN conjunct1,
        rule_format, of "ustr ''Miami''" "ustr ''Florida''" miamiCityUrl miamiNewsUrl
        "okResponse miamiCity" "okResponse (JArr [JObj anArticle, JObj datedArticle])"]
      miamiFlorida_valid miami_cityInfoUrl miami_cityNewsUrl c n body
    by (simp add: ok_okResponse anArticle_normal dated)
  from first second third fourth show ?thesis
    unfolding net_def by blast
qed

section \<open>Properties of the error paths\<close>

lemma renderNews_error: "renderNews parse format (s\<lparr>error := e\<rparr>) = renderNews parse format s"
  by (simp add: renderNews_def currentArticles_def totalPages_def indexOfFirstArticle_def
      indexOfLastArticle_def)

lemma renderCity_error: "renderCity toLocaleString (s\<lparr>error := e\<rparr>) = renderCity toLocaleString s"
  by (simp add: renderCity_def)

lemma render_after_message:
  assumes "render parse format toLocaleString s = Done v" and "m \<noteq> []"
  shows "render parse format toLocaleString (s\<lparr>error := Some m\<rparr>) = Done (v\<lparr>alert := Some m\<rparr>)"
proof -
  from assms(1) obtain shown city where
    n: "renderNews parse format s = Done shown" and c: "renderCity toLocaleString s = Done city"
    unfolding render_def
    by (cases "renderNews parse format s"; cases "renderCity toLocaleString s") simp_all
  with assms show ?thesis
    by (auto simp add: render_def renderNews_error renderCity_error)
qed

lemma render_nothing_stored:
  assumes "news s = []" and "cityInfo s = JNull"
  shows "render parse format toLocaleString s =
    Done \<lparr>inputValue = searchQuery s, suggestions = cityOptions s,
          suggestionsLoading = loadingCities s,
          noOptionsText = (if trim (searchQuery s) \<noteq> [] then ustr ''No matching cities found''
                else ustr ''Type to search for cities''),
          buttonsDisabled = loading s,
          alert = (case error s of None \<Rightarrow> None
                      | Some message \<Rightarrow> if message = [] then None else Some message),
          cards = [], paginator = None, cityCard = None\<rparr>"
  using assms by (simp add: render_def renderNews_def renderCity_def)

lemma asChild_shaped: "stringOrAbsent v \<Longrightarrow> \<exists>c. asChild v = Done c"
  by (cases v) (simp_all add: stringOrAbsent_def)

lemma whenTruthy_shaped:
  "stringOrAbsent v \<Longrightarrow> \<exists>c. whenTruthy v (\<lambda>x. Done (f x)) = Done c"
  by (cases v) (simp_all add: stringOrAbsent_def)

lemma formatPopulation_shaped: "numberOrNull v \<Longrightarrow> \<exists>t. formatPopulation toLocaleString v = Done t"
  by (cases v) (simp_all add: numberOrNull_def)

lemma renderCity_shaped:
  assumes "news s = []" and "cityDtoShaped (cityInfo s)"
  shows "\<exists>card. renderCity toLocaleString s = Done (Some card)"
proof -
  from assms(2) obtain props where i: "cityInfo s = JObj props"
    by (cases "cityInfo s") (simp_all add: cityDtoShaped_def)
  with assms(2) have shaped:
    "stringOrAbsent (ownProp props (ustr ''city''))"
    "stringOrAbsent (ownProp props (ustr ''stateName''))"
    "stringOrAbsent (ownProp props (ustr ''countyName''))"
    "numberOrNull (ownProp props (ustr ''population''))"
    "stringOrAbsent (ownProp props (ustr ''lat''))"
    "stringOrAbsent (ownProp props (ustr ''lng''))"
    "stringOrAbsent (ownProp props (ustr ''timezone''))"
    by (simp_all add: cityDtoShaped_def)
  from asChild_shaped [OF shaped(1)] obtain c1 where
    1: "asChild (ownProp props (ustr ''city'')) = Done c1" ..
  from asChild_shaped [OF shaped(2)] obtain c2 where
    2: "asChild (ownProp props (ustr ''stateName'')) = Done c2" ..
  from whenTruthy_shaped [OF shaped(3)] obtain c3 where
    3: "whenTruthy (ownProp props (ustr ''countyName'')) (\<lambda>c. Done (ustr ''County: '' @ c)) = Done c3" ..
  from formatPopulation_shaped [OF shaped(4)] obtain c4 where
    4: "formatPopulation toLocaleString (ownProp props (ustr ''population'')) = Done c4" ..
  from asChild_shaped [OF shaped(5)] obtain c5 where
    5: "asChild (ownProp props (ustr ''lat'')) = Done c5" ..
  from asChild_shaped [OF shaped(6)] obtain c6 where
    6: "asChild (ownProp props (ustr ''lng'')) = Done c6" ..
  from asChild_shaped [OF shaped(7)] obtain c7 where
    7: "asChild (ownProp props (ustr ''timezone'')) = Done c7" ..
  show ?thesis
    using assms(1) by (simp add: renderCity_def i 1 2 3 4 5 6 7)
qed

lemma render_failed_search:
  assumes "news s = []" and "cityInfo s = JNull \<or> cityDtoShaped (cityInfo s)"
  shows "\<exists>v. render parse format toLocaleString s = Done v \<and> cards v = []
           \<and> paginator v = None
           \<and> alert v = (case error s of None \<Rightarrow> None
                      | Some message \<Rightarrow> if message = [] then None else Some message)
           \<and> (cityCard v = None \<longleftrightarrow> cityInfo s = JNull)"
  using assms(2)
proof
  assume "cityInfo s = JNull"
  then show ?thesis using assms(1) by (simp add: render_nothing_stored)
next
  assume c: "cityDtoShaped (cityInfo s)"
  then have "cityInfo s \<noteq> JNull" by (auto simp add: cityDtoShaped_def)
  moreover from renderCity_shaped [OF assms(1) c] obtain card where
    "renderCity toLocaleString s = Done (Some card)" ..
  ultimately show ?thesis
    using assms(1) by (simp add: render_def renderNews_def)
qed

text \<open>
  Without the declared shape the card can throw: an object with no \<open>population\<close> property
  is truthy, and \<open>formatPopulation\<close> calls \<open>toLocaleString\<close> on \<open>undefined\<close>.
\<close>

lemma render_empty_object_throws:
  "render parse format toLocaleString (initial\<lparr>cityInfo := JObj []\<rparr>) = Throws TypeError"
  by (simp add: render_def renderNews_def renderCity_def initial_def ownProp_def)

lemma cityNewsTry_cityInfo:
  "cityInfo (fst (snd (cityNewsTry net city stateName s))) =
     (case cityInfoUrl city stateName of
        Inl e \<Rightarrow> cityInfo s
      | Inr u \<Rightarrow>
          (case net u of
             Rejects \<Rightarrow> cityInfo s
           | Resolves r \<Rightarrow>
               if ok r then (case json r of None \<Rightarrow> cityInfo s | Some d \<Rightarrow> d) else cityInfo s))"
  unfolding cityNewsTry_def
  by (auto split: sum.split fetch_outcome.split option.split)

lemma cityNewsTry_message:
  assumes "cityNewsTry net city stateName s = (thrown, s', requests)"
  shows "error s' = error s \<or> (\<exists>m. error s' = Some m \<and> m \<noteq> [])"
  using assms unfolding cityNewsTry_def
  by (auto simp add: unauthorized_def ustr_def split: sum.splits fetch_outcome.splits option.splits if_splits)

lemma tryAgain_nonempty: "tryAgain \<noteq> []"
  by (simp add: tryAgain_def ustr_def)

lemma validation_message_nonempty:
  "validateQuery toLowerCase s = Inl m \<Longrightarrow> m \<noteq> []"
  by (auto simp add: validateQuery_def enterCityAndState_def commaFormat_def invalidName_def ustr_def
      split: if_splits list.splits)

lemma fetchCityNews_cityInfo:
  assumes v: "validateQuery toLowerCase s = Inr (city, stateName)"
  shows "cityInfo (fst (fetchCityNews toLowerCase net s)) =
     (case cityInfoUrl city stateName of
        Inl e \<Rightarrow> JNull
      | Inr u \<Rightarrow>
          (case net u of
             Rejects \<Rightarrow> JNull
           | Resolves r \<Rightarrow>
               if ok r then (case json r of None \<Rightarrow> JNull | Some d \<Rightarrow> d) else JNull))"
proof -
  define s0 where "s0 = s\<lparr>error := None, loading := True, news := [], cityInfo := JNull,
      currentPage := 1\<rparr>"
  obtain thrown s' requests where t: "cityNewsTry net city stateName s0 = (thrown, s', requests)"
    by (rule prod_cases3)
  have "cityInfo (fst (fetchCityNews toLowerCase net s)) = cityInfo s'"
    using t by (simp add: fetchCityNews_accepted [OF v] s0_def [symmetric] Let_def split: option.split)
  also have "\<dots> = cityInfo (fst (snd (cityNewsTry net city stateName s0)))"
    by (simp add: t)
  finally show ?thesis
    by (simp add: cityNewsTry_cityInfo s0_def split: sum.split fetch_outcome.split option.split)
qed

lemma fetchCityNews_failed:
  assumes v: "validateQuery toLowerCase s = Inr (city, stateName)"
  shows "loading (fst (fetchCityNews toLowerCase net s)) = False
     \<and> currentPage (fst (fetchCityNews toLowerCase net s)) = 1
     \<and> error (fst (fetchCityNews toLowerCase net s)) \<noteq> Some []
     \<and> (error (fst (fetchCityNews toLowerCase net s)) \<noteq> None \<longrightarrow>
          news (fst (fetchCityNews toLowerCase net s)) = [])"
proof -
  define s0 where "s0 = s\<lparr>error := None, loading := True, news := [], cityInfo := JNull,
      currentPage := 1\<rparr>"
  obtain thrown s' requests where t: "cityNewsTry net city stateName s0 = (thrown, s', requests)"
    by (rule prod_cases3)
  have f: "fst (fetchCityNews toLowerCase net s) =
        (case thrown of Some _ \<Rightarrow> s'\<lparr>error := Some tryAgain\<rparr> | None \<Rightarrow> s')\<lparr>loading := False\<rparr>"
    using t
    by (simp add: fetchCityNews_accepted [OF v] s0_def [symmetric] Let_def split: option.split)
  from cityNewsTry_frame [OF t] have
    fr: "currentPage s' = 1" "thrown \<noteq> None \<or> error s' \<noteq> None \<longrightarrow> news s' = []"
    by (simp_all add: s0_def)
  from cityNewsTry_message [OF t] have m: "error s' \<noteq> Some []"
    by (auto simp add: s0_def)
  show ?thesis
    using fr m tryAgain_nonempty unfolding f by (cases thrown) auto
qed

lemma fetchGlobalNews_failed:
  "loading (fst (fetchGlobalNews net s)) = False
   \<and> currentPage (fst (fetchGlobalNews net s)) = 1
   \<and> cityInfo (fst (fetchGlobalNews net s)) = JNull
   \<and> error (fst (fetchGlobalNews net s)) \<noteq> Some []
   \<and> (error (fst (fetchGlobalNews net s)) \<noteq> None \<longrightarrow> news (fst (fetchGlobalNews net s)) = [])"
  by (simp add: fetchGlobalNews_def globalNewsTry_def networkError_def unauthorized_def ustr_def
      split: fetch_outcome.split option.split sum.split)

lemma alert_of_error:
  "e \<noteq> Some [] \<Longrightarrow>
   (case e of None \<Rightarrow> None | Some message \<Rightarrow> if message = [] then None else Some message) = e"
  by (cases e) simp_all

text \<open>
  C6 (as the code has it). A validation error changes the error message only: the
  articles, the city-info, the page and the loading flag of before stay, and the page
  renders what it rendered before with the message in the alert. A started city search
  and a global search always end with the loading flag cleared and the page at 1; when
  they end with an error the article list is empty. After a global search the city-info is
  \<open>null\<close>; after a city search it is exactly the body of the city-info response of this same
  search when that had a 2xx status and a JSON body, and \<open>null\<close> otherwise. Rendering a state
  that a search has left with an error does not throw: it shows the alert, no article, and
  the city card when the city-info is not \<open>null\<close>, for a city-info of the shape that
  \<open>CityDto\<close> declares.
\<close>

theorem error_paths:
  "(\<forall>m. validateQuery toLowerCase s = Inl m \<longrightarrow>
       error (fst (fetchCityNews toLowerCase net s)) = Some m
     \<and> snd (fetchCityNews toLowerCase net s) = []
     \<and> news (fst (fetchCityNews toLowerCase net s)) = news s
     \<and> cityInfo (fst (fetchCityNews toLowerCase net s)) = cityInfo s
     \<and> currentPage (fst (fetchCityNews toLowerCase net s)) = currentPage s
     \<and> loading (fst (fetchCityNews toLowerCase net s)) = loading s
     \<and> (\<forall>v. render parse format toLocaleString s = Done v \<longrightarrow>
           render parse format toLocaleString (fst (fetchCityNews toLowerCase net s)) =
             Done (v\<lparr>alert := Some m\<rparr>)))
   \<and> (\<forall>city stateName. validateQuery toLowerCase s = Inr (city, stateName) \<longrightarrow>
       loading (fst (fetchCityNews toLowerCase net s)) = False
     \<and> currentPage (fst (fetchCityNews toLowerCase net s)) = 1
     \<and> cityInfo (fst (fetchCityNews toLowerCase net s)) =
         (case cityInfoUrl city stateName of
            Inl e \<Rightarrow> JNull
          | Inr u \<Rightarrow>
              (case net u of
                 Rejects \<Rightarrow> JNull
               | Resolves r \<Rightarrow>
                   if ok r then (case json r of None \<Rightarrow> JNull | Some d \<Rightarrow> d) else JNull))
     \<and> (error (fst (fetchCityNews toLowerCase net s)) \<noteq> None \<longrightarrow>
          news (fst (fetchCityNews toLowerCase net s)) = []
        \<and> (cityInfo (fst (fetchCityNews toLowerCase net s)) = JNull
            \<or> cityDtoShaped (cityInfo (fst (fetchCityNews toLowerCase net s))) \<longrightarrow>
             (\<exists>v. render parse format toLocaleString (fst (fetchCityNews toLowerCase net s)) = Done v
                \<and> cards v = [] \<and> paginator v = None
                \<and> alert v = error (fst (fetchCityNews toLowerCase net s))
                \<and> (cityCard v = None \<longleftrightarrow>
                     cityInfo (fst (fetchCityNews toLowerCase net s)) = JNull)))))
   \<and> loading (fst (fetchGlobalNews net s)) = False
   \<and> currentPage (fst (fetchGlobalNews net s)) = 1
   \<and> cityInfo (fst (fetchGlobalNews net s)) = JNull
   \<and> (error (fst (fetchGlobalNews net s)) \<noteq> None \<longrightarrow>
        news (fst (fetchGlobalNews net s)) = []
      \<and> (\<exists>v. render parse format toLocaleString (fst (fetchGlobalNews net s)) = Done v
            \<and> cards v = [] \<and> paginator v = None
            \<and> alert v = error (fst (fetchGlobalNews net s))
            \<and> cityCard v = None))"
proof -
  have rejected: "error (fst (fetchCityNews toLowerCase net s)) = Some m
     \<and> snd (fetchCityNews toLowerCase net s) = []
     \<and> news (fst (fetchCityNews toLowerCase net s)) = news s
     \<and> cityInfo (fst (fetchCityNews toLowerCase net s)) = cityInfo s
     \<and> currentPage (fst (fetchCityNews toLowerCase net s)) = currentPage s
     \<and> loading (fst (fetchCityNews toLowerCase net s)) = loading s
     \<and> (\<forall>v. render parse format toLocaleString s = Done v \<longrightarrow>
           render parse format toLocaleString (fst (fetchCityNews toLowerCase net s)) =
             Done (v\<lparr>alert := Some m\<rparr>))"
    if v: "validateQuery toLowerCase s = Inl m" for m
    using validation_message_nonempty [OF v]
    by (simp add: fetchCityNews_rejected [OF v] render_after_message)
  have accepted: "loading (fst (fetchCityNews toLowerCase net s)) = False
     \<and> currentPage (fst (fetchCityNews toLowerCase net s)) = 1
     \<and> cityInfo (fst (fetchCityNews toLowerCase net s)) =
         (case cityInfoUrl city stateName of
            Inl e \<Rightarrow> JNull
          | Inr u \<Rightarrow>
              (case net u of
                 Rejects \<Rightarrow> JNull
               | Resolves r \<Rightarrow>
                   if ok r then (case json r of None \<Rightarrow> JNull | Some d \<Rightarrow> d) else JNull))
     \<and> (error (fst (fetchCityNews toLowerCase net s)) \<noteq> None \<longrightarrow>
          news (fst (fetchCityNews toLowerCase net s)) = []
        \<and> (cityInfo (fst (fetchCityNews toLowerCase net s)) = JNull
            \<or> cityDtoShaped (cityInfo (fst (fetchCityNews toLowerCase net s))) \<longrightarrow>
             (\<exists>v. render parse format toLocaleString (fst (fetchCityNews toLowerCase net s)) = Done v
                \<and> cards v = [] \<and> paginator v = None
                \<and> alert v = error (fst (fetchCityNews toLowerCase net s))
                \<and> (cityCard v = None \<longleftrightarrow>
                     cityInfo (fst (fetchCityNews toLowerCase net s)) = JNull))))"
    if v: "validateQuery toLowerCase s = Inr (city, stateName)" for city stateName
  proof -
    define result where "result = fst (fetchCityNews toLowerCase net s)"
    note failed = fetchCityNews_failed [OF v, of net, folded result_def]
    have shown: "\<exists>v. render parse format toLocaleString result = Done v
                \<and> cards v = [] \<and> paginator v = None
                \<and> alert v = error result
                \<and> (cityCard v = None \<longleftrightarrow> cityInfo result = JNull)"
      if "news result = []" and "cityInfo result = JNull \<or> cityDtoShaped (cityInfo result)"
      using render_failed_search [OF that, of parse format toLocaleString] failed
      by (simp add: alert_of_error)
    show ?thesis
      using failed shown fetchCityNews_cityInfo [OF v, of net]
      unfolding result_def [symmetric] by blast
  qed
  have global: "loading (fst (fetchGlobalNews net s)) = False
   \<and> currentPage (fst (fetchGlobalNews net s)) = 1
   \<and> cityInfo (fst (fetchGlobalNews net s)) = JNull
   \<and> (error (fst (fetchGlobalNews net s)) \<noteq> None \<longrightarrow>
        news (fst (fetchGlobalNews net s)) = []
      \<and> (\<exists>v. render parse format toLocaleString (fst (fetchGlobalNews net s)) = Done v
            \<and> cards v = [] \<and> paginator v = None
            \<and> alert v = error (fst (fetchGlobalNews net s))
            \<and> cityCard v = None))"
  proof -
    define result where "result = fst (fetchGlobalNews net s)"
    note failed = fetchGlobalNews_failed [of net s, folded result_def]
    have "\<exists>v. render parse format toLocaleString result = Done v
            \<and> cards v = [] \<and> paginator v = None \<and> alert v = error result \<and> cityCard v = None"
      if "news result = []"
      using render_nothing_stored [OF that, of parse format toLocaleString] failed
      by (simp add: alert_of_error)
    then show ?thesis
      using failed unfolding result_def [symmetric] by blast
  qed
  show ?thesis
    using rejected accepted global by blast
qed

theorem error_paths_witness:
  "(\<exists>v. render atTen longDate grouped stormShown = Done v \<and> length (cards v) = 1
      \<and> render atTen longDate grouped (fst (fetchCityNews asciiLower alwaysEmpty stormShown)) =
          Done (v\<lparr>alert := Some commaFormat\<rparr>))
   \<and> news (fst (fetchCityNews asciiLower alwaysEmpty miamiOnly)) = [JObj anArticle]
   \<and> cityInfo (fst (fetchCityNews asciiLower alwaysEmpty miamiOnly)) = miamiCity
   \<and> loading (fst (fetchCityNews asciiLower alwaysEmpty miamiOnly)) = False
   \<and> loading (fst (fetchCityNews asciiLower
        (cityThen (Resolves (failure 503 (ustr ''Service Unavailable'')))) miamiFlorida)) = False
   \<and> news (fst (fetchCityNews asciiLower
        (cityThen (Resolves (failure 503 (ustr ''Service Unavailable'')))) miamiFlorida)) = []
   \<and> cityInfo (fst (fetchCityNews asciiLower
        (cityThen (Resolves (failure 503 (ustr ''Service Unavailable'')))) miamiFlorida)) = miamiCity
   \<and> (\<exists>v. render atTen longDate grouped (fst (fetchCityNews asciiLower
        (cityThen (Resolves (failure 503 (ustr ''Service Unavailable'')))) miamiFlorida)) = Done v
      \<and> cards v = []
      \<and> alert v = Some (ustr ''Error getting news: 503 Service Unavailable'')
      \<and> cityCard v \<noteq> None)
   \<and> news (fst (fetchGlobalNews offline miamiFlorida)) = []
   \<and> cityInfo (fst (fetchGlobalNews offline miamiFlorida)) = JNull
   \<and> loading (fst (fetchGlobalNews offline miamiFlorida)) = False
   \<and> (\<exists>v. render atTen longDate grouped (fst (fetchGlobalNews offline miamiFlorida)) = Done v
      \<and> cards v = [] \<and> alert v = Some (ustr ''Network error'') \<and> cityCard v = None)"
proof -
  have v0: "validateQuery asciiLower stormShown = Inl commaFormat"
    by code_simp
  have shown: "(case render atTen longDate grouped stormShown of
                  Done v \<Rightarrow> length (cards v) = 1 | _ \<Rightarrow> False)"
    by code_simp
  then obtain v where r: "render atTen longDate grouped stormShown = Done v"
    and one: "length (cards v) = 1"
    by (cases "render atTen longDate grouped stormShown") simp_all
  note storm = error_paths [where toLowerCase = asciiLower and s = stormShown
      and net = alwaysEmpty and parse = atTen and format = longDate and toLocaleString = grouped,
      THEN conjunct1, rule_format, OF v0]
  from storm r have "render atTen longDate grouped (fst (fetchCityNews asciiLower alwaysEmpty stormShown)) =
          Done (v\<lparr>alert := Some commaFormat\<rparr>)"
    by blast
  with r one have 0: "\<exists>v. render atTen longDate grouped stormShown = Done v \<and> length (cards v) = 1
      \<and> render atTen longDate grouped (fst (fetchCityNews asciiLower alwaysEmpty stormShown)) =
          Done (v\<lparr>alert := Some commaFormat\<rparr>)"
    by blast
  have v1: "validateQuery asciiLower miamiOnly = Inl commaFormat"
    by code_simp
  from error_paths [where toLowerCase = asciiLower and s = miamiOnly and net = alwaysEmpty
      and parse = atTen and format = longDate and toLocaleString = grouped,
      THEN conjunct1, rule_format, OF v1]
  have 1: "news (fst (fetchCityNews asciiLower alwaysEmpty miamiOnly)) = [JObj anArticle]
   \<and> cityInfo (fst (fetchCityNews asciiLower alwaysEmpty miamiOnly)) = miamiCity
   \<and> loading (fst (fetchCityNews asciiLower alwaysEmpty miamiOnly)) = False"
    by (simp add: miamiOnly_def initial_def)
  define net where "net = cityThen (Resolves (failure 503 (ustr ''Service Unavailable'')))"
  define result where "result = fst (fetchCityNews asciiLower net miamiFlorida)"
  have e: "error result = Some (ustr ''Error getting news: 503 Service Unavailable'')"
    unfolding result_def net_def by code_simp
  have c: "net miamiCityUrl = Resolves (okResponse miamiCity)"
    by (simp add: net_def cityThen_def miamiServer_city)
  have shaped: "cityDtoShaped miamiCity"
    by code_simp
  have notnull: "miamiCity \<noteq> JNull"
    by (simp add: miamiCity_def)
  note city = error_paths [where toLowerCase = asciiLower and s = miamiFlorida and net = net
      and parse = atTen and format = longDate and toLocaleString = grouped,
      THEN conjunct2, THEN conjunct1, rule_format, OF miamiFlorida_valid, folded result_def]
  from city have ci: "cityInfo result = miamiCity"
    by (simp add: miami_cityInfoUrl c ok_okResponse)
  from city e ci shaped have
    "loading result = False \<and> news result = []
     \<and> (\<exists>v. render atTen longDate grouped result = Done v \<and> cards v = []
          \<and> alert v = error result \<and> (cityCard v = None \<longleftrightarrow> cityInfo result = JNull))"
    by auto
  with e ci notnull have 2: "loading result = False \<and> news result = [] \<and> cityInfo result = miamiCity
     \<and> (\<exists>v. render atTen longDate grouped result = Done v \<and> cards v = []
          \<and> alert v = Some (ustr ''Error getting news: 503 Service Unavailable'')
          \<and> cityCard v \<noteq> None)"
    by auto
  define global where "global = fst (fetchGlobalNews offline miamiFlorida)"
  have g: "error global = Some (ustr ''Network error'')"
    unfolding global_def by code_simp
  from error_paths [where s = miamiFlorida and net = offline
      and parse = atTen and format = longDate and toLocaleString = grouped and toLowerCase = asciiLower,
      folded global_def] g
  have 3: "news global = [] \<and> cityInfo global = JNull \<and> loading global = False
     \<and> (\<exists>v. render atTen longDate grouped global = Done v
      \<and> cards v = [] \<and> alert v = Some (ustr ''Network error'') \<and> cityCard v = None)"
    by auto
  show ?thesis
    using 0 1 2 3 unfolding net_def result_def global_def by blast
qed

text \<open>
  C6 as stated fails: a validation error leaves the articles and the city-info of the
  earlier search in place, and a news response with an error status leaves the city-info
  that the same search has just fetched.
\<close>

theorem error_paths_counterexample:
  "error (fst (fetchCityNews asciiLower alwaysEmpty miamiOnly)) =
     Some (ustr ''Please enter city and state separated by a comma (e.g., Miami, Florida).'')
   \<and> news (fst (fetchCityNews asciiLower alwaysEmpty miamiOnly)) = [JObj anArticle]
   \<and> news (fst (fetchCityNews asciiLower alwaysEmpty miamiOnly)) \<noteq> []
   \<and> cityInfo (fst (fetchCityNews asciiLower alwaysEmpty miamiOnly)) = miamiCity
   \<and> error (fst (fetchCityNews asciiLower
        (cityThen (Resolves (failure 503 (ustr ''Service Unavailable'')))) miamiFlorida)) =
       Some (ustr ''Error getting news: 503 Service Unavailable'')
   \<and> cityInfo (fst (fetchCityNews asciiLower
        (cityThen (Resolves (failure 503 (ustr ''Service Unavailable'')))) miamiFlorida)) = miamiCity
   \<and> miamiCity \<noteq> JNull"
  by code_simp

end
